theory Spec2Isabelle
  imports Main
begin

section \<open>Strings and the JavaScript string primitives the scanner relies on\<close>

text \<open>
  Strings are lists of 8-bit characters, read as the code units U+0000 .. U+00FF.
  The whitespace of \<^verbatim>\<open>trim\<close> and of the regular expression class \<^verbatim>\<open>\s\<close> is
  the part of the ECMAScript set that lies in this range: TAB, LF, VT, FF, CR, SPACE and
  NBSP. Line terminators (for \<^verbatim>\<open>.\<close>, \<^verbatim>\<open>^\<close> and \<^verbatim>\<open>$\<close>) are LF and CR.
\<close>

definition isSpace :: "char \<Rightarrow> bool" where
  "isSpace c = (of_char c \<in> {9::nat, 10, 11, 12, 13, 32, 160})"

definition isLineTerminator :: "char \<Rightarrow> bool" where
  "isLineTerminator c = (of_char c \<in> {10::nat, 13})"

definition isDigit :: "char \<Rightarrow> bool" where
  "isDigit c = (48 \<le> (of_char c :: nat) \<and> (of_char c :: nat) \<le> 57)"

definition noneOf :: "string \<Rightarrow> char \<Rightarrow> bool" where
  "noneOf cs c = (c \<notin> set cs)"

definition oneOf :: "string \<Rightarrow> char \<Rightarrow> bool" where
  "oneOf cs c = (c \<in> set cs)"

definition nonSpace :: "char \<Rightarrow> bool" where
  "nonSpace c = (\<not> isSpace c)"

definition nonSpaceNoneOf :: "string \<Rightarrow> char \<Rightarrow> bool" where
  "nonSpaceNoneOf cs c = (\<not> isSpace c \<and> c \<notin> set cs)"

definition anyChar :: "char \<Rightarrow> bool" where
  "anyChar c = (\<not> isLineTerminator c)"

definition trim :: "string \<Rightarrow> string" where
  "trim s = rev (dropWhile isSpace (rev (dropWhile isSpace s)))"

definition startsWith :: "string \<Rightarrow> string \<Rightarrow> bool" where
  "startsWith s p = (take (length p) s = p)"

fun includesStr :: "string \<Rightarrow> string \<Rightarrow> bool" where
  "includesStr [] p = (p = [])"
| "includesStr (c # cs) p = (startsWith (c # cs) p \<or> includesStr cs p)"

text \<open>\<^verbatim>\<open>s.split(sep)\<close> for a one-character separator: always at least one piece.\<close>

fun splitOn :: "char \<Rightarrow> string \<Rightarrow> string list" where
  "splitOn sep [] = [[]]"
| "splitOn sep (c # cs) =
     (if c = sep then [] # splitOn sep cs
      else (case splitOn sep cs of [] \<Rightarrow> [[c]] | p # ps \<Rightarrow> (c # p) # ps))"

text \<open>\<^verbatim>\<open>xs.join(sep)\<close>.\<close>

fun join :: "string \<Rightarrow> string list \<Rightarrow> string" where
  "join sep [] = []"
| "join sep [x] = x"
| "join sep (x # y # ys) = x @ sep @ join sep (y # ys)"

text \<open>\<^verbatim>\<open>String(n)\<close> for a non-negative integer: its decimal digits.\<close>

definition digitChar :: "nat \<Rightarrow> char" where
  "digitChar d = char_of (48 + d)"

fun decimal :: "nat \<Rightarrow> string" where
  "decimal n = (if n < 10 then [digitChar n] else decimal (n div 10) @ [digitChar (n mod 10)])"

text \<open>A value that may be \<^verbatim>\<open>undefined\<close> is an option; JavaScript truthiness of an
  optional string: defined and not empty.\<close>

definition truthy :: "string option \<Rightarrow> bool" where
  "truthy v = (case v of None \<Rightarrow> False | Some s \<Rightarrow> s \<noteq> [])"

text \<open>Interpolation of an optional string in a template literal.\<close>

definition interp :: "string option \<Rightarrow> string" where
  "interp v = (case v of None \<Rightarrow> ''undefined'' | Some s \<Rightarrow> s)"

section \<open>Regular expressions\<close>

text \<open>
  The regular expressions of the source are transcribed into a small abstract syntax and
  run by a backtracking matcher with the priorities of ECMAScript: a greedy quantifier
  tries the longest run first, a lazy one the shortest, an alternation its left branch
  first. Quantifiers in the source only range over single character classes, and capture
  groups are never nested nor quantified, which is all the syntax below provides.
\<close>

datatype rx =
    Lit string
  | One "char \<Rightarrow> bool"
  | Opt "char \<Rightarrow> bool"
  | Rep nat "char \<Rightarrow> bool"
  | RepLazy nat "char \<Rightarrow> bool"
  | Open
  | Close
  | Alt "rx list" "rx list"
  | EolM

fun rx_weight :: "rx \<Rightarrow> nat" where
  "rx_weight (Alt a b) = Suc (sum_list (map rx_weight a) + sum_list (map rx_weight b))"
| "rx_weight (Lit l) = 1"
| "rx_weight (One c) = 1"
| "rx_weight (Opt c) = 1"
| "rx_weight (Rep n c) = 1"
| "rx_weight (RepLazy n c) = 1"
| "rx_weight Open = 1"
| "rx_weight Close = 1"
| "rx_weight EolM = 1"

fun first_some :: "('a \<Rightarrow> 'b option) \<Rightarrow> 'a list \<Rightarrow> 'b option" where
  "first_some f [] = None"
| "first_some f (x # xs) = (case f x of Some r \<Rightarrow> Some r | None \<Rightarrow> first_some f xs)"

lemma first_some_cong [fundef_cong]:
  "xs = ys \<Longrightarrow> (\<And>x. x \<in> set ys \<Longrightarrow> f x = g x) \<Longrightarrow> first_some f xs = first_some g ys"
  by (induction ys arbitrary: xs) (auto split: option.splits)

text \<open>
  \<open>rmatch rs s op caps\<close> matches the items \<open>rs\<close> at the head of \<open>s\<close>. \<open>op\<close> is the
  input at the start of the capture group that is open, \<open>caps\<close> the captures closed so
  far. The result is the captures and the input left after the match.
\<close>

function rmatch :: "rx list \<Rightarrow> string \<Rightarrow> string option \<Rightarrow> string list \<Rightarrow> (string list \<times> string) option" where
  "rmatch [] s op caps = Some (caps, s)"
| "rmatch (Lit l # rs) s op caps =
     (if startsWith s l then rmatch rs (drop (length l) s) op caps else None)"
| "rmatch (One c # rs) s op caps =
     (case s of [] \<Rightarrow> None | x # xs \<Rightarrow> if c x then rmatch rs xs op caps else None)"
| "rmatch (Opt c # rs) s op caps =
     (case (case s of [] \<Rightarrow> None | x # xs \<Rightarrow> if c x then rmatch rs xs op caps else None) of
        Some r \<Rightarrow> Some r
      | None \<Rightarrow> rmatch rs s op caps)"
| "rmatch (Rep n c # rs) s op caps =
     first_some (\<lambda>k. rmatch rs (drop k s) op caps) (rev [n ..< Suc (length (takeWhile c s))])"
| "rmatch (RepLazy n c # rs) s op caps =
     first_some (\<lambda>k. rmatch rs (drop k s) op caps) [n ..< Suc (length (takeWhile c s))]"
| "rmatch (Open # rs) s op caps = rmatch rs s (Some s) caps"
| "rmatch (Close # rs) s op caps =
     rmatch rs s None
       (caps @ [case op of None \<Rightarrow> [] | Some s0 \<Rightarrow> take (length s0 - length s) s0])"
| "rmatch (Alt a b # rs) s op caps =
     (case rmatch (a @ rs) s op caps of Some r \<Rightarrow> Some r | None \<Rightarrow> rmatch (b @ rs) s op caps)"
| "rmatch (EolM # rs) s op caps =
     (case s of
        [] \<Rightarrow> rmatch rs s op caps
      | x # xs \<Rightarrow> if isLineTerminator x then rmatch rs s op caps else None)"
  by pat_completeness auto
termination
  by (relation "measure (\<lambda>(rs, s, op, caps). sum_list (map rx_weight rs))") auto

text \<open>\<^verbatim>\<open>re.exec(s)\<close> for a pattern anchored with \<^verbatim>\<open>^\<close> (no m flag).\<close>

definition execAt :: "rx list \<Rightarrow> string \<Rightarrow> (string list \<times> string) option" where
  "execAt rs s = rmatch rs s None []"

text \<open>\<^verbatim>\<open>re.exec(s)\<close> for a pattern with no anchor: the leftmost match.\<close>

fun search :: "rx list \<Rightarrow> string \<Rightarrow> (string list \<times> string) option" where
  "search rs [] = execAt rs []"
| "search rs (c # cs) =
     (case execAt rs (c # cs) of Some r \<Rightarrow> Some r | None \<Rightarrow> search rs cs)"

text \<open>\<^verbatim>\<open>re.exec(s)\<close> for a pattern that starts with \<^verbatim>\<open>^\<close> under the m flag: the leftmost
  match that starts at the beginning of a line. \<open>bol\<close> tells whether the head of the input
  is such a position.\<close>

fun searchBol :: "rx list \<Rightarrow> bool \<Rightarrow> string \<Rightarrow> (string list \<times> string) option" where
  "searchBol rs bol [] = (if bol then execAt rs [] else None)"
| "searchBol rs bol (c # cs) =
     (case (if bol then execAt rs (c # cs) else None) of
        Some r \<Rightarrow> Some r
      | None \<Rightarrow> searchBol rs (isLineTerminator c) cs)"

section \<open>Name-keyed tables\<close>

text \<open>
  A JavaScript \<^verbatim>\<open>Map\<close> is a list of key-value pairs with distinct keys, in insertion
  order (the order in which \<^verbatim>\<open>for ... of\<close> visits it). \<^verbatim>\<open>set\<close> replaces the value of a
  key that is present, in place, and appends a key that is not.
\<close>

fun mapSet :: "('k \<times> 'v) list \<Rightarrow> 'k \<Rightarrow> 'v \<Rightarrow> ('k \<times> 'v) list" where
  "mapSet [] k v = [(k, v)]"
| "mapSet ((k', v') # m) k v = (if k' = k then (k, v) # m else (k', v') # mapSet m k v)"

definition mapGet :: "('k \<times> 'v) list \<Rightarrow> 'k \<Rightarrow> 'v option" where
  "mapGet m k = map_of m k"

definition mapHas :: "('k \<times> 'v) list \<Rightarrow> 'k \<Rightarrow> bool" where
  "mapHas m k = (map_of m k \<noteq> None)"

section \<open>The data model (types.ts)\<close>

datatype Severity = critical | high | medium | low | info

datatype PackageManager = npm | yarn | pnpm

record PackageDependency =
  dep_name :: string
  dep_version :: string
  dep_scope :: "string option"
  dep_isScoped :: bool
  dep_isDev :: bool
  dep_resolvedUrl :: "string option"
  dep_integrity :: "string option"
  dep_hasInstallScripts :: bool

record RegistryConfig =
  defaultRegistry :: "string option"
  scopeRegistries :: "(string \<times> string) list"
  hasConfig :: bool

record PackageJsonData =
  pj_name :: "string option"
  pj_version :: "string option"
  pj_isPrivate :: bool
  pj_dependencies :: "(string \<times> string) list"
  pj_devDependencies :: "(string \<times> string) list"
  hasPreinstall :: bool
  hasPostinstall :: bool
  hasInstall :: bool

record LockfileEntry =
  le_name :: string
  le_version :: string
  le_resolved :: "string option"
  le_integrity :: "string option"
  le_hasInstallScripts :: "bool option"

record LockfileData =
  lf_type :: PackageManager
  lf_packages :: "(string \<times> LockfileEntry) list"

record ProjectContext =
  rootDir :: string
  packageJson :: PackageJsonData
  dependencies :: "PackageDependency list"
  registryConfig :: RegistryConfig
  lockfile :: "LockfileData option"

record Finding =
  ruleId :: string
  severity :: Severity
  title :: string
  description :: string
  packageName :: "string option"
  recommendation :: string
  evidence :: "string option"

record ScanSummary =
  sum_total :: nat
  sum_critical :: nat
  sum_high :: nat
  sum_medium :: nat
  sum_low :: nat
  sum_info :: nat

record ScanContext =
  packagesScanned :: nat
  scopedPackages :: nat
  registriesConfigured :: nat
  lockfileDetected :: bool

record ScanResult =
  findings :: "Finding list"
  summary :: ScanSummary
  scanContext :: ScanContext

section \<open>The lockfile parsers (parser/lockfile-parser.ts)\<close>

subsection \<open>npm: package-lock.json\<close>

text \<open>
  \<open>parseNpmLockfile\<close> starts from the value that \<^verbatim>\<open>JSON.parse\<close> returns; a text that
  is not JSON never reaches the code below. The members of an object are listed in the
  order of \<^verbatim>\<open>Object.entries\<close>. Reading a property of \<^verbatim>\<open>null\<close> throws.
\<close>

datatype json = JNull | JBool bool | JNum int | JStr string | JArr "json list" | JObj "(string \<times> json) list"

datatype error = TypeError

text \<open>\<^verbatim>\<open>v[k]\<close> for the property names the parser reads (none of them is a property of a
  string, a number, a boolean or an array).\<close>

definition getProp :: "json \<Rightarrow> string \<Rightarrow> error + json option" where
  "getProp v k = (case v of JNull \<Rightarrow> Inl TypeError | JObj kvs \<Rightarrow> Inr (map_of kvs k) | _ \<Rightarrow> Inr None)"

text \<open>\<^verbatim>\<open>x ?? {}\<close>.\<close>

definition orEmptyObject :: "json option \<Rightarrow> json" where
  "orEmptyObject x = (case x of None \<Rightarrow> JObj [] | Some JNull \<Rightarrow> JObj [] | Some v \<Rightarrow> v)"

text \<open>\<^verbatim>\<open>Object.entries(v)\<close> for a value that is neither null nor undefined.\<close>

definition objectEntries :: "json \<Rightarrow> (string \<times> json) list" where
  "objectEntries v =
     (case v of
        JObj kvs \<Rightarrow> kvs
      | JArr xs \<Rightarrow> map (\<lambda>(i, x). (decimal i, x)) (enumerate 0 xs)
      | JStr s \<Rightarrow> map (\<lambda>(i, c). (decimal i, JStr [c])) (enumerate 0 s)
      | _ \<Rightarrow> [])"

text \<open>\<^verbatim>\<open>key.replace(/^node_modules\//, '')\<close>.\<close>

definition stripNodeModules :: "string \<Rightarrow> string" where
  "stripNodeModules key =
     (if startsWith key ''node_modules/'' then drop (length ''node_modules/'') key else key)"

definition stringOr :: "json option \<Rightarrow> string option" where
  "stringOr x = (case x of Some (JStr s) \<Rightarrow> Some s | _ \<Rightarrow> None)"

definition npmEntry :: "string \<Rightarrow> json \<Rightarrow> error + LockfileEntry" where
  "npmEntry name v =
     (case getProp v ''version'' of
        Inl e \<Rightarrow> Inl e
      | Inr ver \<Rightarrow>
          (case getProp v ''resolved'' of
             Inl e \<Rightarrow> Inl e
           | Inr res \<Rightarrow>
               (case getProp v ''integrity'' of
                  Inl e \<Rightarrow> Inl e
                | Inr integ \<Rightarrow>
                    (case getProp v ''hasInstallScripts'' of
                       Inl e \<Rightarrow> Inl e
                     | Inr scripts \<Rightarrow>
                         Inr \<lparr> le_name = name,
                               le_version = (case stringOr ver of Some s \<Rightarrow> s | None \<Rightarrow> []),
                               le_resolved = stringOr res,
                               le_integrity = stringOr integ,
                               le_hasInstallScripts =
                                 (if scripts = Some (JBool True) then Some True else None) \<rparr>))))"

text \<open>The loop over \<^verbatim>\<open>raw.packages\<close> (lockfileVersion 2 and 3).\<close>

fun npmPackagesLoop ::
  "(string \<times> json) list \<Rightarrow> (string \<times> LockfileEntry) list \<Rightarrow> error + (string \<times> LockfileEntry) list" where
  "npmPackagesLoop [] packages = Inr packages"
| "npmPackagesLoop ((key, v) # rest) packages =
     (if key = [] then npmPackagesLoop rest packages
      else (case npmEntry (stripNodeModules key) v of
              Inl e \<Rightarrow> Inl e
            | Inr entry \<Rightarrow> npmPackagesLoop rest (mapSet packages (stripNodeModules key) entry)))"

text \<open>The fallback loop over \<^verbatim>\<open>raw.dependencies\<close> (lockfileVersion 1).\<close>

fun npmDependenciesLoop ::
  "(string \<times> json) list \<Rightarrow> (string \<times> LockfileEntry) list \<Rightarrow> error + (string \<times> LockfileEntry) list" where
  "npmDependenciesLoop [] packages = Inr packages"
| "npmDependenciesLoop ((name, v) # rest) packages =
     (case npmEntry name v of
        Inl e \<Rightarrow> Inl e
      | Inr entry \<Rightarrow> npmDependenciesLoop rest (mapSet packages name entry))"

definition parseNpmLockfile :: "json \<Rightarrow> error + LockfileData" where
  "parseNpmLockfile raw =
     (case getProp raw ''packages'' of
        Inl e \<Rightarrow> Inl e
      | Inr pkgs \<Rightarrow>
          (case npmPackagesLoop (objectEntries (orEmptyObject pkgs)) [] of
             Inl e \<Rightarrow> Inl e
           | Inr packages \<Rightarrow>
               if length packages = 0 then
                 (case getProp raw ''dependencies'' of
                    Inl e \<Rightarrow> Inl e
                  | Inr deps \<Rightarrow>
                      (case npmDependenciesLoop (objectEntries (orEmptyObject deps)) packages of
                         Inl e \<Rightarrow> Inl e
                       | Inr packages' \<Rightarrow> Inr \<lparr> lf_type = npm, lf_packages = packages' \<rparr>))
               else Inr \<lparr> lf_type = npm, lf_packages = packages \<rparr>))"

subsection \<open>yarn: yarn.lock (v1 text format)\<close>

text \<open>\<^verbatim>\<open>content.split(/\n(?=\S)/)\<close>: a cut at every newline that a character other than
  whitespace follows.\<close>

fun splitBlocks :: "string \<Rightarrow> string list" where
  "splitBlocks [] = [[]]"
| "splitBlocks (c # cs) =
     (if c = CHR 0x0A \<and> (case cs of [] \<Rightarrow> False | d # _ \<Rightarrow> \<not> isSpace d) then [] # splitBlocks cs
      else (case splitBlocks cs of [] \<Rightarrow> [[c]] | p # ps \<Rightarrow> (c # p) # ps))"

text \<open>\<^verbatim>\<open>/^"?(@?[^@"]+)@/\<close>\<close>

definition yarnNameRx :: "rx list" where
  "yarnNameRx =
     [Opt (oneOf [CHR 0x22]), Open, Opt (oneOf ''@''), Rep 1 (noneOf [CHR ''@'', CHR 0x22]), Close,
      Lit ''@'']"

text \<open>\<^verbatim>\<open>/^version\s+"([^"]+)"/\<close> and \<^verbatim>\<open>/^resolved\s+"([^"]+)"/\<close>\<close>

definition yarnQuotedRx :: "string \<Rightarrow> rx list" where
  "yarnQuotedRx key =
     [Lit key, Rep 1 isSpace, Lit [CHR 0x22], Open, Rep 1 (noneOf [CHR 0x22]), Close, Lit [CHR 0x22]]"

text \<open>\<^verbatim>\<open>/^integrity\s+(\S+)/\<close>\<close>

definition yarnIntegrityRx :: "rx list" where
  "yarnIntegrityRx = [Lit ''integrity'', Rep 1 isSpace, Open, Rep 1 nonSpace, Close]"

text \<open>The first capture group of a match.\<close>

definition group1 :: "(string list \<times> string) option \<Rightarrow> string option" where
  "group1 m = (case m of Some (g # _, _) \<Rightarrow> Some g | _ \<Rightarrow> None)"

text \<open>The loop over the lines of a block after its header: the last line that matches
  a key decides its value.\<close>

fun yarnFields :: "string list \<Rightarrow> string \<times> string option \<times> string option \<Rightarrow> string \<times> string option \<times> string option" where
  "yarnFields [] acc = acc"
| "yarnFields (line # rest) (version, resolved, integrity) =
     yarnFields rest
       ((case group1 (execAt (yarnQuotedRx ''version'') (trim line)) of Some v \<Rightarrow> v | None \<Rightarrow> version),
        (case group1 (execAt (yarnQuotedRx ''resolved'') (trim line)) of Some r \<Rightarrow> Some r | None \<Rightarrow> resolved),
        (case group1 (execAt yarnIntegrityRx (trim line)) of Some i \<Rightarrow> Some i | None \<Rightarrow> integrity))"

text \<open>One block: the entry it stores, or nothing for a block the loop skips.\<close>

definition yarnBlock :: "string \<Rightarrow> LockfileEntry option" where
  "yarnBlock block =
     (case splitOn CHR 0x0A block of
        [] \<Rightarrow> None
      | first # others \<Rightarrow>
          (let header = trim first in
           if header = [] \<or> startsWith header ''#'' then None
           else (case group1 (execAt yarnNameRx header) of
                   None \<Rightarrow> None
                 | Some name \<Rightarrow>
                     (case yarnFields others ([], None, None) of
                        (version, resolved, integrity) \<Rightarrow>
                          Some \<lparr> le_name = name, le_version = version, le_resolved = resolved,
                                 le_integrity = integrity, le_hasInstallScripts = None \<rparr>))))"

fun yarnLoop :: "string list \<Rightarrow> (string \<times> LockfileEntry) list \<Rightarrow> (string \<times> LockfileEntry) list" where
  "yarnLoop [] packages = packages"
| "yarnLoop (block # rest) packages =
     (case yarnBlock block of
        None \<Rightarrow> yarnLoop rest packages
      | Some entry \<Rightarrow> yarnLoop rest (mapSet packages (le_name entry) entry))"

definition parseYarnLockfile :: "string \<Rightarrow> LockfileData" where
  "parseYarnLockfile content = \<lparr> lf_type = yarn, lf_packages = yarnLoop (splitBlocks content) [] \<rparr>"

subsection \<open>pnpm: pnpm-lock.yaml\<close>

text \<open>\<^verbatim>\<open>/^'?\/?(@[^/]+\/[^/]+)\/([\d][^:']*)'?:/\<close>\<close>

definition v5ScopedRx :: "rx list" where
  "v5ScopedRx =
     [Opt (oneOf [CHR 0x27]), Opt (oneOf ''/''),
      Open, Lit ''@'', Rep 1 (noneOf ''/''), Lit ''/'', Rep 1 (noneOf ''/''), Close,
      Lit ''/'',
      Open, One isDigit, Rep 0 (noneOf [CHR '':'', CHR 0x27]), Close,
      Opt (oneOf [CHR 0x27]), Lit '':'']"

text \<open>\<^verbatim>\<open>/^'?\/([^@/][^/]*)\/([\d][^:']*)'?:/\<close>\<close>

definition v5UnscopedRx :: "rx list" where
  "v5UnscopedRx =
     [Opt (oneOf [CHR 0x27]), Lit ''/'',
      Open, One (noneOf ''@/''), Rep 0 (noneOf ''/''), Close,
      Lit ''/'',
      Open, One isDigit, Rep 0 (noneOf [CHR '':'', CHR 0x27]), Close,
      Opt (oneOf [CHR 0x27]), Lit '':'']"

text \<open>\<^verbatim>\<open>/^'?\/?(@[^@]+|[^@/'\s][^@]*?)@([\d][^:']*)'?:/\<close>\<close>

definition v6Rx :: "rx list" where
  "v6Rx =
     [Opt (oneOf [CHR 0x27]), Opt (oneOf ''/''),
      Open,
      Alt [Lit ''@'', Rep 1 (noneOf ''@'')]
          [One (nonSpaceNoneOf [CHR ''@'', CHR ''/'', CHR 0x27]), RepLazy 0 (noneOf ''@'')],
      Close,
      Lit ''@'',
      Open, One isDigit, Rep 0 (noneOf [CHR '':'', CHR 0x27]), Close,
      Opt (oneOf [CHR 0x27]), Lit '':'']"

text \<open>\<^verbatim>\<open>/integrity:\s*['"]?(sha[^}'"\s]+)['"]?/\<close>\<close>

definition pnpmIntegrityRx :: "rx list" where
  "pnpmIntegrityRx =
     [Lit ''integrity:'', Rep 0 isSpace, Opt (oneOf [CHR 0x27, CHR 0x22]),
      Open, Lit ''sha'', Rep 1 (nonSpaceNoneOf [CHR ''}'', CHR 0x27, CHR 0x22]), Close,
      Opt (oneOf [CHR 0x27, CHR 0x22])]"

text \<open>The two capture groups of a match.\<close>

definition groups12 :: "(string list \<times> string) option \<Rightarrow> (string \<times> string) option" where
  "groups12 m = (case m of Some (g1 # g2 # _, _) \<Rightarrow> Some (g1, g2) | _ \<Rightarrow> None)"

text \<open>\<^verbatim>\<open>v5Scoped ?? v5Unscoped ?? v6Match\<close>: the name and the version of a key line.\<close>

definition pnpmKey :: "string \<Rightarrow> (string \<times> string) option" where
  "pnpmKey trimmed =
     (case groups12 (execAt v5ScopedRx trimmed) of
        Some r \<Rightarrow> Some r
      | None \<Rightarrow>
          (case groups12 (execAt v5UnscopedRx trimmed) of
             Some r \<Rightarrow> Some r
           | None \<Rightarrow> groups12 (execAt v6Rx trimmed)))"

text \<open>The local variables of \<^verbatim>\<open>parsePnpmLockfile\<close>.\<close>

record pnpm_state =
  packages :: "(string \<times> LockfileEntry) list"
  inPackagesSection :: bool
  currentName :: "string option"
  currentVersion :: "string option"
  currentIntegrity :: "string option"

text \<open>The pending entry, when name and version are both set and not empty.\<close>

definition pending :: "pnpm_state \<Rightarrow> LockfileEntry option" where
  "pending st =
     (case (currentName st, currentVersion st) of
        (Some name, Some version) \<Rightarrow>
          if name \<noteq> [] \<and> version \<noteq> [] then
            Some \<lparr> le_name = name, le_version = version, le_resolved = None,
                   le_integrity = currentIntegrity st, le_hasInstallScripts = None \<rparr>
          else None
      | _ \<Rightarrow> None)"

text \<open>\<^verbatim>\<open>if (currentName && currentVersion && !packages.has(currentName)) packages.set(...)\<close>\<close>

definition flush :: "pnpm_state \<Rightarrow> pnpm_state" where
  "flush st =
     (case pending st of
        None \<Rightarrow> st
      | Some entry \<Rightarrow>
          if \<not> mapHas (packages st) (le_name entry)
          then st\<lparr> packages := mapSet (packages st) (le_name entry) entry \<rparr>
          else st)"

text \<open>\<^verbatim>\<open>/^\S/.test(line)\<close>\<close>

definition startsNonSpace :: "string \<Rightarrow> bool" where
  "startsNonSpace line = (case line of [] \<Rightarrow> False | c # _ \<Rightarrow> \<not> isSpace c)"

text \<open>One turn of the loop over the lines.\<close>

definition pnpmLine :: "pnpm_state \<Rightarrow> string \<Rightarrow> pnpm_state" where
  "pnpmLine st line =
     (let trimmed = trim line in
      if execAt [Lit ''packages:''] trimmed \<noteq> None then st\<lparr> inPackagesSection := True \<rparr>
      else if inPackagesSection st \<and> startsNonSpace line \<and> length trimmed > 0
              \<and> \<not> startsWith trimmed ''/'' \<and> \<not> startsWith trimmed ''@''
              \<and> \<not> startsWith trimmed [CHR 0x27]
      then (flush st)\<lparr> inPackagesSection := False, currentName := None,
                         currentVersion := None, currentIntegrity := None \<rparr>
      else if \<not> inPackagesSection st then st
      else (case pnpmKey trimmed of
              Some (name, version) \<Rightarrow>
                (flush st)\<lparr> currentName := Some name, currentVersion := Some version,
                             currentIntegrity := None \<rparr>
            | None \<Rightarrow>
                if truthy (currentName st) then
                  (case group1 (search pnpmIntegrityRx trimmed) of
                     Some h \<Rightarrow> st\<lparr> currentIntegrity := Some h \<rparr>
                   | None \<Rightarrow> st)
                else st))"

definition pnpmInit :: pnpm_state where
  "pnpmInit = \<lparr> packages = [], inPackagesSection = False, currentName = None,
                currentVersion = None, currentIntegrity = None \<rparr>"

definition parsePnpmLockfile :: "string \<Rightarrow> LockfileData" where
  "parsePnpmLockfile content =
     \<lparr> lf_type = pnpm,
       lf_packages = packages (flush (foldl pnpmLine pnpmInit (splitOn CHR 0x0A content))) \<rparr>"

subsection \<open>Occurrences of a name in a lockfile\<close>

text \<open>
  The entries a parser builds, one per block it visits, in the order of the file and
  before any of them is stored: for yarn the blocks with a header the loop accepts, for
  npm the members of the object it walks, for pnpm the pending entries at the points
  where the parser flushes.
\<close>

definition yarnOccurrences :: "string \<Rightarrow> LockfileEntry list" where
  "yarnOccurrences content = List.map_filter yarnBlock (splitBlocks content)"

text \<open>For npm, the entries of \<^verbatim>\<open>raw.packages\<close> with a key that is not empty (no member
  here is \<^verbatim>\<open>null\<close>: the parser throws on those).\<close>

definition npmOccurrences :: "(string \<times> json) list \<Rightarrow> LockfileEntry list" where
  "npmOccurrences members =
     List.map_filter
       (\<lambda>(key, v). if key = [] then None
                    else (case npmEntry (stripNodeModules key) v of Inl e \<Rightarrow> None | Inr entry \<Rightarrow> Some entry))
       members"

text \<open>For pnpm, the control state of the parser is run without the table, and the entry
  pending at each flush is recorded.\<close>

definition pnpmTraceLine :: "pnpm_state \<times> LockfileEntry list \<Rightarrow> string \<Rightarrow> pnpm_state \<times> LockfileEntry list" where
  "pnpmTraceLine sl line =
     (case sl of (st, log) \<Rightarrow>
        (let trimmed = trim line in
         if execAt [Lit ''packages:''] trimmed \<noteq> None then (st\<lparr> inPackagesSection := True \<rparr>, log)
         else if inPackagesSection st \<and> startsNonSpace line \<and> length trimmed > 0
                 \<and> \<not> startsWith trimmed ''/'' \<and> \<not> startsWith trimmed ''@''
                 \<and> \<not> startsWith trimmed [CHR 0x27]
         then (st\<lparr> inPackagesSection := False, currentName := None,
                    currentVersion := None, currentIntegrity := None \<rparr>,
               log @ (case pending st of None \<Rightarrow> [] | Some e \<Rightarrow> [e]))
         else if \<not> inPackagesSection st then (st, log)
         else (case pnpmKey trimmed of
                 Some (name, version) \<Rightarrow>
                   (st\<lparr> currentName := Some name, currentVersion := Some version,
                        currentIntegrity := None \<rparr>,
                    log @ (case pending st of None \<Rightarrow> [] | Some e \<Rightarrow> [e]))
               | None \<Rightarrow>
                   if truthy (currentName st) then
                     (case group1 (search pnpmIntegrityRx trimmed) of
                        Some h \<Rightarrow> (st\<lparr> currentIntegrity := Some h \<rparr>, log)
                      | None \<Rightarrow> (st, log))
                   else (st, log))))"

definition pnpmOccurrences :: "string \<Rightarrow> LockfileEntry list" where
  "pnpmOccurrences content =
     (case foldl pnpmTraceLine (pnpmInit, []) (splitOn CHR 0x0A content) of
        (st, log) \<Rightarrow> log @ (case pending st of None \<Rightarrow> [] | Some e \<Rightarrow> [e]))"

text \<open>The first and the last occurrence of a name.\<close>

definition firstOccurrence :: "LockfileEntry list \<Rightarrow> string \<Rightarrow> LockfileEntry option" where
  "firstOccurrence es n = List.find (\<lambda>e. le_name e = n) es"

definition lastOccurrence :: "LockfileEntry list \<Rightarrow> string \<Rightarrow> LockfileEntry option" where
  "lastOccurrence es n = List.find (\<lambda>e. le_name e = n) (rev es)"

section \<open>The detection rules (analyzer/rules.ts)\<close>

record Rule =
  rule_id :: string
  rule_severity :: Severity
  rule_title :: string
  run :: "ProjectContext \<Rightarrow> Finding list"

definition isPublicRegistry :: "string option \<Rightarrow> bool" where
  "isPublicRegistry url =
     (case url of
        None \<Rightarrow> True
      | Some u \<Rightarrow>
          if u = [] then True
          else includesStr u ''registry.npmjs.org'' \<or> includesStr u ''registry.yarnpkg.com'')"

text \<open>\<^verbatim>\<open>/^\d+\.\d+\.\d+/\<close>\<close>

definition versionRx :: "rx list" where
  "versionRx = [Rep 1 isDigit, Lit ''.'', Rep 1 isDigit, Lit ''.'', Rep 1 isDigit]"

definition isVersionPinned :: "string \<Rightarrow> bool" where
  "isVersionPinned version =
     (execAt versionRx version \<noteq> None \<and> \<not> startsWith version ''^'' \<and> \<not> startsWith version ''~''
      \<and> \<not> includesStr version ''>='' \<and> \<not> includesStr version ''<='' \<and> \<not> includesStr version ''>''
      \<and> \<not> includesStr version ''<'' \<and> version \<noteq> ''*'' \<and> \<not> includesStr version ''||'')"

definition getScopedDependencies :: "ProjectContext \<Rightarrow> PackageDependency list" where
  "getScopedDependencies context = filter dep_isScoped (dependencies context)"

text \<open>\<^verbatim>\<open>map.has(scope)\<close> and \<^verbatim>\<open>map.get(scope)\<close> for a scope that may be undefined: no key
  of a table of strings is undefined.\<close>

definition hasScope :: "(string \<times> 'v) list \<Rightarrow> string option \<Rightarrow> bool" where
  "hasScope m scope = (case scope of None \<Rightarrow> False | Some s \<Rightarrow> mapHas m s)"

subsection \<open>DC-001: no registry configuration and the project uses scoped packages\<close>

definition noRegistryConfig_run :: "ProjectContext \<Rightarrow> Finding list" where
  "noRegistryConfig_run context =
     (let scoped = getScopedDependencies context in
      if \<not> hasConfig (registryConfig context) \<and> length scoped > 0 then
        [\<lparr> ruleId = ''DC-001'', severity = high, title = ''No registry configuration found'',
            description = ''No .npmrc or .yarnrc.yml found, but project uses '' @ decimal (length scoped)
              @ '' scoped package(s). All packages resolve from the public npm registry by default.'',
            packageName = None,
            recommendation = ''Create an .npmrc file with scope-specific registry mappings for your private scopes.'',
            evidence = Some (''Scoped packages: '' @ join '', '' (map dep_name scoped)) \<rparr>]
      else [])"

definition noRegistryConfig :: Rule where
  "noRegistryConfig =
     \<lparr> rule_id = ''DC-001'', rule_severity = high, rule_title = ''No registry configuration found'',
       run = noRegistryConfig_run \<rparr>"

subsection \<open>DC-002: scoped package without a registry mapping for its scope\<close>

definition defaultIsPrivate :: "RegistryConfig \<Rightarrow> bool" where
  "defaultIsPrivate rc = (truthy (defaultRegistry rc) \<and> \<not> isPublicRegistry (defaultRegistry rc))"

definition scopeWithoutRegistry_finding :: "PackageDependency \<Rightarrow> Finding" where
  "scopeWithoutRegistry_finding dep =
     \<lparr> ruleId = ''DC-002'', severity = critical, title = ''Scoped package without registry mapping'',
       description = ''Package \"'' @ dep_name dep @ ''\" uses scope \"'' @ interp (dep_scope dep)
         @ ''\" but no registry mapping exists for this scope. It will be fetched from the public npm registry.'',
       packageName = Some (dep_name dep),
       recommendation = ''Add '' @ [CHR 0x27] @ interp (dep_scope dep)
         @ '':registry=https://your-private-registry.example.com/'' @ [CHR 0x27] @ '' to .npmrc'',
       evidence = Some (''Scope: '' @ interp (dep_scope dep) @ '', Version: '' @ dep_version dep) \<rparr>"

definition scopeWithoutRegistry_run :: "ProjectContext \<Rightarrow> Finding list" where
  "scopeWithoutRegistry_run context =
     (if \<not> hasConfig (registryConfig context) then []
      else
        foldl
          (\<lambda>findings dep.
             if \<not> hasScope (scopeRegistries (registryConfig context)) (dep_scope dep)
                \<and> \<not> defaultIsPrivate (registryConfig context)
             then findings @ [scopeWithoutRegistry_finding dep]
             else findings)
          [] (getScopedDependencies context))"

definition scopeWithoutRegistry :: Rule where
  "scopeWithoutRegistry =
     \<lparr> rule_id = ''DC-002'', rule_severity = critical,
       rule_title = ''Scoped package without registry mapping'', run = scopeWithoutRegistry_run \<rparr>"

subsection \<open>DC-003: lockfile resolves a scoped package from the public registry\<close>

definition lockfilePublicResolution_finding :: "PackageDependency \<Rightarrow> LockfileEntry \<Rightarrow> Finding" where
  "lockfilePublicResolution_finding dep lockEntry =
     \<lparr> ruleId = ''DC-003'', severity = critical,
       title = ''Scoped package resolved from public registry'',
       description = ''Package \"'' @ dep_name dep @ ''\" has a private registry configured for scope \"''
         @ interp (dep_scope dep)
         @ ''\", but the lockfile shows it resolved from the public npm registry.'',
       packageName = Some (dep_name dep),
       recommendation = ''Delete the lockfile and node_modules, then run a fresh install to resolve from the correct registry.'',
       evidence = Some (''Resolved URL: '' @ interp (le_resolved lockEntry)) \<rparr>"

definition lockfilePublicResolution_run :: "ProjectContext \<Rightarrow> Finding list" where
  "lockfilePublicResolution_run context =
     (case lockfile context of
        None \<Rightarrow> []
      | Some lf \<Rightarrow>
          foldl
            (\<lambda>findings dep.
               if \<not> hasScope (scopeRegistries (registryConfig context)) (dep_scope dep) then findings
               else
                 (case mapGet (lf_packages lf) (dep_name dep) of
                    None \<Rightarrow> findings
                  | Some lockEntry \<Rightarrow>
                      if truthy (le_resolved lockEntry) \<and> isPublicRegistry (le_resolved lockEntry)
                      then findings @ [lockfilePublicResolution_finding dep lockEntry]
                      else findings))
            [] (getScopedDependencies context))"

definition lockfilePublicResolution :: Rule where
  "lockfilePublicResolution =
     \<lparr> rule_id = ''DC-003'', rule_severity = critical,
       rule_title = ''Scoped package resolved from public registry'',
       run = lockfilePublicResolution_run \<rparr>"

subsection \<open>DC-004: no lockfile\<close>

definition missingLockfile_run :: "ProjectContext \<Rightarrow> Finding list" where
  "missingLockfile_run context =
     (case lockfile context of
        Some lf \<Rightarrow> []
      | None \<Rightarrow>
          [\<lparr> ruleId = ''DC-004'', severity = high, title = ''No lockfile found'',
              description = ''No package-lock.json, yarn.lock, or pnpm-lock.yaml found. Package resolution is non-deterministic.'',
              packageName = None,
              recommendation = ''Run npm install (or yarn/pnpm install) and commit the lockfile to version control.'',
              evidence = None \<rparr>])"

definition missingLockfile :: Rule where
  "missingLockfile =
     \<lparr> rule_id = ''DC-004'', rule_severity = high, rule_title = ''No lockfile found'',
       run = missingLockfile_run \<rparr>"

subsection \<open>DC-005: lockfile entry without an integrity hash\<close>

definition noIntegrityHash_run :: "ProjectContext \<Rightarrow> Finding list" where
  "noIntegrityHash_run context =
     (case lockfile context of
        None \<Rightarrow> []
      | Some lf \<Rightarrow>
          foldl
            (\<lambda>findings dep.
               (case mapGet (lf_packages lf) (dep_name dep) of
                  None \<Rightarrow> findings
                | Some lockEntry \<Rightarrow>
                    if \<not> truthy (le_integrity lockEntry) then
                      findings @
                        [\<lparr> ruleId = ''DC-005'', severity = medium,
                            title = ''Missing integrity hash in lockfile'',
                            description = ''Package \"'' @ dep_name dep
                              @ ''\" has no integrity hash in the lockfile. Package contents cannot be verified.'',
                            packageName = Some (dep_name dep),
                            recommendation = ''Regenerate the lockfile with a recent version of npm/yarn/pnpm that includes integrity hashes.'',
                            evidence = None \<rparr>]
                    else findings))
            [] (dependencies context))"

definition noIntegrityHash :: Rule where
  "noIntegrityHash =
     \<lparr> rule_id = ''DC-005'', rule_severity = medium,
       rule_title = ''Missing integrity hash in lockfile'', run = noIntegrityHash_run \<rparr>"

subsection \<open>DC-006: install scripts\<close>

definition installScriptsRisk_run :: "ProjectContext \<Rightarrow> Finding list" where
  "installScriptsRisk_run context =
     (let pj = packageJson context;
          own =
            (if hasPreinstall pj \<or> hasPostinstall pj \<or> hasInstall pj then
               [\<lparr> ruleId = ''DC-006'', severity = medium, title = ''Install scripts detected'',
                   description = ''This project'' @ [CHR 0x27]
                     @ ''s package.json contains install lifecycle scripts that execute during npm install.'',
                   packageName = pj_name pj,
                   recommendation = ''Review install scripts for unexpected behavior. Consider using --ignore-scripts for CI.'',
                   evidence = Some (join '', ''
                     ((if hasPreinstall pj then [''preinstall''] else [])
                      @ (if hasInstall pj then [''install''] else [])
                      @ (if hasPostinstall pj then [''postinstall''] else []))) \<rparr>]
             else [])
      in foldl
           (\<lambda>findings dep.
              if dep_hasInstallScripts dep \<and> dep_isScoped dep then
                findings @
                  [\<lparr> ruleId = ''DC-006'', severity = high,
                      title = ''Scoped dependency has install scripts'',
                      description = ''Scoped package \"'' @ dep_name dep
                        @ ''\" has install lifecycle scripts that execute during npm install. Combined with dependency confusion, this is a code execution vector.'',
                      packageName = Some (dep_name dep),
                      recommendation = ''Verify \"'' @ dep_name dep
                        @ ''\" is from your private registry. Consider using --ignore-scripts or npm audit signatures.'',
                      evidence = Some ''hasInstallScripts: true in lockfile'' \<rparr>]
              else findings)
           own (dependencies context))"

definition installScriptsRisk :: Rule where
  "installScriptsRisk =
     \<lparr> rule_id = ''DC-006'', rule_severity = medium, rule_title = ''Install scripts detected'',
       run = installScriptsRisk_run \<rparr>"

subsection \<open>DC-007: scoped package with a version that is not pinned\<close>

text \<open>\<^verbatim>\<open>version.replace(/^[\^~]/, '')\<close>\<close>

definition stripRangePrefix :: "string \<Rightarrow> string" where
  "stripRangePrefix version =
     (case version of [] \<Rightarrow> [] | c # cs \<Rightarrow> if c = CHR ''^'' \<or> c = CHR ''~'' then cs else c # cs)"

definition unpinnedScopedVersion_finding :: "PackageDependency \<Rightarrow> Finding" where
  "unpinnedScopedVersion_finding dep =
     \<lparr> ruleId = ''DC-007'', severity = medium, title = ''Unpinned version on scoped package'',
       description = ''Scoped package \"'' @ dep_name dep @ ''\" uses version range \"'' @ dep_version dep
         @ ''\". A higher version from the public registry could be pulled.'',
       packageName = Some (dep_name dep),
       recommendation = ''Pin to an exact version: \"'' @ dep_name dep @ ''\": \"''
         @ stripRangePrefix (dep_version dep) @ ''\"'',
       evidence = Some (''Version: '' @ dep_version dep) \<rparr>"

definition unpinnedScopedVersion_run :: "ProjectContext \<Rightarrow> Finding list" where
  "unpinnedScopedVersion_run context =
     foldl
       (\<lambda>findings dep.
          if \<not> isVersionPinned (dep_version dep) then findings @ [unpinnedScopedVersion_finding dep]
          else findings)
       [] (getScopedDependencies context)"

definition unpinnedScopedVersion :: Rule where
  "unpinnedScopedVersion =
     \<lparr> rule_id = ''DC-007'', rule_severity = medium,
       rule_title = ''Unpinned version on scoped package'', run = unpinnedScopedVersion_run \<rparr>"

subsection \<open>DC-009: mixed registries for the packages of one scope\<close>

text \<open>\<^verbatim>\<open>set.add(x)\<close> on a set kept in insertion order.\<close>

definition setAdd :: "'a list \<Rightarrow> 'a \<Rightarrow> 'a list" where
  "setAdd xs x = (if x \<in> set xs then xs else xs @ [x])"

text \<open>
  \<^verbatim>\<open>new URL(url).hostname\<close> belongs to the platform: \<open>hostname\<close> is a parameter of the rule,
  \<open>None\<close> where the constructor throws. The first loop fills the two tables
  \<^verbatim>\<open>scopeRegistryMap\<close> and \<^verbatim>\<open>scopePackages\<close>.
\<close>

definition mixedScopeRegistries_collect ::
  "(string \<Rightarrow> string option) \<Rightarrow> LockfileData \<Rightarrow>
   (string \<times> string list) list \<times> (string \<times> string list) list \<Rightarrow> PackageDependency \<Rightarrow>
   (string \<times> string list) list \<times> (string \<times> string list) list" where
  "mixedScopeRegistries_collect hostname lf maps dep =
     (case maps of (scopeRegistryMap, scopePackages) \<Rightarrow>
        if \<not> dep_isScoped dep \<or> \<not> truthy (dep_scope dep) then maps
        else
          (case dep_scope dep of
             None \<Rightarrow> maps
           | Some scope \<Rightarrow>
               (case mapGet (lf_packages lf) (dep_name dep) of
                  None \<Rightarrow> maps
                | Some lockEntry \<Rightarrow>
                    (case le_resolved lockEntry of
                       None \<Rightarrow> maps
                     | Some resolved \<Rightarrow>
                         if resolved = [] then maps
                         else
                           (case hostname resolved of
                              None \<Rightarrow> maps
                            | Some registryHost \<Rightarrow>
                                if registryHost = [] then maps
                                else
                                  (let m1 = (if \<not> mapHas scopeRegistryMap scope
                                             then mapSet scopeRegistryMap scope [] else scopeRegistryMap);
                                       p1 = (if \<not> mapHas scopeRegistryMap scope
                                             then mapSet scopePackages scope [] else scopePackages)
                                   in (mapSet m1 scope
                                         (setAdd (case mapGet m1 scope of Some s \<Rightarrow> s | None \<Rightarrow> [])
                                            registryHost),
                                       mapSet p1 scope
                                         ((case mapGet p1 scope of Some s \<Rightarrow> s | None \<Rightarrow> [])
                                            @ [dep_name dep]))))))))"

definition mixedScopeRegistries_run :: "(string \<Rightarrow> string option) \<Rightarrow> ProjectContext \<Rightarrow> Finding list" where
  "mixedScopeRegistries_run hostname context =
     (case lockfile context of
        None \<Rightarrow> []
      | Some lf \<Rightarrow>
          (case foldl (mixedScopeRegistries_collect hostname lf) ([], []) (dependencies context) of
             (scopeRegistryMap, scopePackages) \<Rightarrow>
               foldl
                 (\<lambda>findings (scope, registries).
                    if length registries > 1 then
                      findings @
                        [\<lparr> ruleId = ''DC-009'', severity = high,
                            title = ''Mixed registries for same scope'',
                            description = ''Packages in scope \"'' @ scope @ ''\" resolve from ''
                              @ decimal (length registries)
                              @ '' different registries. This could indicate a partial compromise.'',
                            packageName = None,
                            recommendation = ''Ensure all packages in scope \"'' @ scope
                              @ ''\" resolve from the same private registry.'',
                            evidence = Some (''Registries: '' @ join '', '' registries @ ''; Packages: ''
                              @ join '', '' (case mapGet scopePackages scope of Some ps \<Rightarrow> ps | None \<Rightarrow> [])) \<rparr>]
                    else findings)
                 [] scopeRegistryMap))"

definition mixedScopeRegistries :: "(string \<Rightarrow> string option) \<Rightarrow> Rule" where
  "mixedScopeRegistries hostname =
     \<lparr> rule_id = ''DC-009'', rule_severity = high, rule_title = ''Mixed registries for same scope'',
       run = mixedScopeRegistries_run hostname \<rparr>"

subsection \<open>DC-010: a private registry is configured\<close>

definition privateRegistryConfigured_run :: "ProjectContext \<Rightarrow> Finding list" where
  "privateRegistryConfigured_run context =
     (let rc = registryConfig context;
          first =
            (if truthy (defaultRegistry rc) \<and> \<not> isPublicRegistry (defaultRegistry rc) then
               [\<lparr> ruleId = ''DC-010'', severity = info, title = ''Private registry configured'',
                   description = ''Default registry is set to a private registry: ''
                     @ interp (defaultRegistry rc),
                   packageName = None,
                   recommendation = ''This is a good practice. Ensure scope-specific mappings are also configured for completeness.'',
                   evidence = Some (''Registry: '' @ interp (defaultRegistry rc)) \<rparr>]
             else [])
      in foldl
           (\<lambda>findings (scope, registry).
              if \<not> isPublicRegistry (Some registry) then
                findings @
                  [\<lparr> ruleId = ''DC-010'', severity = info,
                      title = ''Private registry configured for '' @ scope,
                      description = ''Scope \"'' @ scope @ ''\" is mapped to private registry: '' @ registry,
                      packageName = None,
                      recommendation = ''Good configuration. Verify it matches your organization''
                        @ [CHR 0x27] @ ''s private registry.'',
                      evidence = Some (''Scope: '' @ scope @ '', Registry: '' @ registry) \<rparr>]
              else findings)
           first (scopeRegistries rc))"

definition privateRegistryConfigured :: Rule where
  "privateRegistryConfigured =
     \<lparr> rule_id = ''DC-010'', rule_severity = info, rule_title = ''Private registry configured'',
       run = privateRegistryConfigured_run \<rparr>"

definition ALL_RULES :: "(string \<Rightarrow> string option) \<Rightarrow> Rule list" where
  "ALL_RULES hostname =
     [noRegistryConfig, scopeWithoutRegistry, lockfilePublicResolution, missingLockfile,
      noIntegrityHash, installScriptsRisk, unpinnedScopedVersion, mixedScopeRegistries hostname,
      privateRegistryConfigured]"

section \<open>The registry configuration parser (parser/registry-config-parser.ts)\<close>

subsection \<open>.npmrc\<close>

text \<open>\<^verbatim>\<open>/^registry\s*=\s*(.+)/\<close>\<close>

definition npmrcRegistryRx :: "rx list" where
  "npmrcRegistryRx =
     [Lit ''registry'', Rep 0 isSpace, Lit ''='', Rep 0 isSpace, Open, Rep 1 anyChar, Close]"

text \<open>\<^verbatim>\<open>/^(@[^:]+):registry\s*=\s*(.+)/\<close>\<close>

definition npmrcScopeRx :: "rx list" where
  "npmrcScopeRx =
     [Open, Lit ''@'', Rep 1 (noneOf '':''), Close, Lit '':registry'', Rep 0 isSpace, Lit ''='',
      Rep 0 isSpace, Open, Rep 1 anyChar, Close]"

definition npmrcLine :: "string option \<times> (string \<times> string) list \<Rightarrow> string \<Rightarrow> string option \<times> (string \<times> string) list" where
  "npmrcLine acc line =
     (case acc of (defaultReg, scopeRegs) \<Rightarrow>
        (let trimmed = trim line in
         if trimmed = [] \<or> startsWith trimmed ''#'' \<or> startsWith trimmed '';'' then acc
         else
           (case group1 (execAt npmrcRegistryRx trimmed) of
              Some r \<Rightarrow> (Some (trim r), scopeRegs)
            | None \<Rightarrow>
                (case groups12 (execAt npmrcScopeRx trimmed) of
                   Some (scope, r) \<Rightarrow> (defaultReg, mapSet scopeRegs scope (trim r))
                 | None \<Rightarrow> acc))))"

definition parseNpmrcContent :: "string \<Rightarrow> RegistryConfig" where
  "parseNpmrcContent content =
     (case foldl npmrcLine (None, []) (splitOn CHR 0x0A content) of
        (defaultReg, scopeRegs) \<Rightarrow>
          \<lparr> defaultRegistry = defaultReg, scopeRegistries = scopeRegs, hasConfig = True \<rparr>)"

subsection \<open>.yarnrc.yml\<close>

text \<open>\<^verbatim>\<open>/npmRegistryServer:\s*"?([^"\n]+)"?/m\<close>\<close>

definition yarnrcServerRx :: "rx list" where
  "yarnrcServerRx =
     [Lit ''npmRegistryServer:'', Rep 0 isSpace, Opt (oneOf [CHR 0x22]),
      Open, Rep 1 (noneOf [CHR 0x22, CHR 0x0A]), Close, Opt (oneOf [CHR 0x22])]"

text \<open>\<^verbatim>\<open>/^npmScopes:\s*$/m\<close>\<close>

definition npmScopesRx :: "rx list" where
  "npmScopesRx = [Lit ''npmScopes:'', Rep 0 isSpace, EolM]"

text \<open>\<^verbatim>\<open>/^\s{2}["']?(@[^"'\s:]+)["']?\s*:/\<close>\<close>

definition yarnrcScopeRx :: "rx list" where
  "yarnrcScopeRx =
     [One isSpace, One isSpace, Opt (oneOf [CHR 0x22, CHR 0x27]),
      Open, Lit ''@'', Rep 1 (nonSpaceNoneOf [CHR 0x22, CHR 0x27, CHR '':'']), Close,
      Opt (oneOf [CHR 0x22, CHR 0x27]), Rep 0 isSpace, Lit '':'']"

text \<open>\<^verbatim>\<open>/^\s{4,}npmRegistryServer:\s*"?([^"\n]+)"?/\<close>\<close>

definition yarnrcNestedRx :: "rx list" where
  "yarnrcNestedRx = Rep 4 isSpace # yarnrcServerRx"

text \<open>The loop over the lines after \<^verbatim>\<open>npmScopes:\<close>, which a line that starts at column 0
  ends.\<close>

fun yarnrcScopes :: "string list \<Rightarrow> string option \<Rightarrow> (string \<times> string) list \<Rightarrow> (string \<times> string) list" where
  "yarnrcScopes [] currentScope scopeRegs = scopeRegs"
| "yarnrcScopes (line # rest) currentScope scopeRegs =
     (if startsNonSpace line \<and> trim line \<noteq> [] then scopeRegs
      else
        (case group1 (execAt yarnrcScopeRx line) of
           Some scope \<Rightarrow> yarnrcScopes rest (Some scope) scopeRegs
         | None \<Rightarrow>
             (case currentScope of
                None \<Rightarrow> yarnrcScopes rest currentScope scopeRegs
              | Some scope \<Rightarrow>
                  if scope = [] then yarnrcScopes rest currentScope scopeRegs
                  else
                    (case group1 (execAt yarnrcNestedRx line) of
                       Some r \<Rightarrow> yarnrcScopes rest currentScope (mapSet scopeRegs scope (trim r))
                     | None \<Rightarrow> yarnrcScopes rest currentScope scopeRegs))))"

definition parseYarnrcContent :: "string \<Rightarrow> RegistryConfig" where
  "parseYarnrcContent content =
     \<lparr> defaultRegistry = map_option trim (group1 (search yarnrcServerRx content)),
       scopeRegistries =
         (case searchBol npmScopesRx True content of
            None \<Rightarrow> []
          | Some (groups, afterScopes) \<Rightarrow> yarnrcScopes (splitOn CHR 0x0A afterScopes) None []),
       hasConfig = True \<rparr>"

subsection \<open>Reading and merging the two files\<close>

text \<open>The two files of the project root that the parser looks at: the content of each,
  or \<open>None\<close> for a file that does not exist.\<close>

record ConfigFiles =
  npmrcFile :: "string option"
  yarnrcFile :: "string option"

definition noConfig :: RegistryConfig where
  "noConfig = \<lparr> defaultRegistry = None, scopeRegistries = [], hasConfig = False \<rparr>"

definition parseNpmrc :: "ConfigFiles \<Rightarrow> RegistryConfig" where
  "parseNpmrc files = (case npmrcFile files of None \<Rightarrow> noConfig | Some content \<Rightarrow> parseNpmrcContent content)"

definition parseYarnrc :: "ConfigFiles \<Rightarrow> RegistryConfig" where
  "parseYarnrc files = (case yarnrcFile files of None \<Rightarrow> noConfig | Some content \<Rightarrow> parseYarnrcContent content)"

definition parseRegistryConfig :: "ConfigFiles \<Rightarrow> RegistryConfig" where
  "parseRegistryConfig files =
     (let npmrcConfig = parseNpmrc files;
          yarnrcConfig = parseYarnrc files;
          fromYarnrc = foldl (\<lambda>m (scope, registry). mapSet m scope registry) []
                         (scopeRegistries yarnrcConfig);
          merged = foldl (\<lambda>m (scope, registry). mapSet m scope registry) fromYarnrc
                         (scopeRegistries npmrcConfig)
      in \<lparr> defaultRegistry =
             (case defaultRegistry npmrcConfig of
                Some r \<Rightarrow> Some r
              | None \<Rightarrow> defaultRegistry yarnrcConfig),
           scopeRegistries = merged,
           hasConfig = (hasConfig npmrcConfig \<or> hasConfig yarnrcConfig) \<rparr>)"

section \<open>The online registry checker (analyzer/registry-checker.ts)\<close>

text \<open>
  What a HEAD request to the public registry comes to: a response with a status, or an
  exception (network failure, abort after the timeout of five seconds). The network is a
  parameter \<open>fetch\<close>: the outcome of the request for the dependency at a position of the
  list of scoped dependencies.
\<close>

datatype response = Status nat | Failure

datatype RegistryCheckResult = Exists | NotFound | CheckError

definition packageExistsOnPublicNpm :: "response \<Rightarrow> RegistryCheckResult" where
  "packageExistsOnPublicNpm outcome =
     (case outcome of
        Failure \<Rightarrow> CheckError
      | Status code \<Rightarrow> if code = 200 then Exists else if code = 404 then NotFound else CheckError)"

definition existsFinding :: "PackageDependency \<Rightarrow> Finding" where
  "existsFinding dep =
     \<lparr> ruleId = ''DC-008'', severity = high, title = ''Scoped package exists on public npm'',
       description = ''Package \"'' @ dep_name dep
         @ ''\" exists on the public npm registry. This is a direct dependency confusion attack vector if you expect this to be a private package.'',
       packageName = Some (dep_name dep),
       recommendation = ''Verify that the public \"'' @ dep_name dep
         @ ''\" package is the intended one, not a malicious squatter. Configure scope-specific registry in .npmrc.'',
       evidence = Some (''Public npm URL: https://registry.npmjs.org/'' @ dep_name dep) \<rparr>"

definition errorFinding :: "PackageDependency \<Rightarrow> Finding" where
  "errorFinding dep =
     \<lparr> ruleId = ''DC-008'', severity = low, title = ''Unable to check public registry'',
       description = ''Could not verify whether \"'' @ dep_name dep
         @ ''\" exists on the public npm registry. Network error or timeout occurred.'',
       packageName = Some (dep_name dep),
       recommendation = ''Re-run with network access to complete the dependency confusion check.'',
       evidence = Some ''Network check failed'' \<rparr>"

text \<open>The state of the checker: the findings pushed and, in order, the names for which
  a request was issued.\<close>

record checker_state =
  pushed :: "Finding list"
  requested :: "string list"

text \<open>One member of a batch, at position \<open>k\<close> of the scoped list: the request and the
  branch on its result. (The promise of a member never rejects, since
  \<^verbatim>\<open>packageExistsOnPublicNpm\<close> catches every exception; the order of the results is the
  order of the batch.)\<close>

definition checkOne :: "(nat \<Rightarrow> string \<Rightarrow> response) \<Rightarrow> checker_state \<Rightarrow> nat \<times> PackageDependency \<Rightarrow> checker_state" where
  "checkOne fetch st kd =
     (case kd of (k, dep) \<Rightarrow>
        (let checkResult = packageExistsOnPublicNpm (fetch k (dep_name dep));
             st1 = st\<lparr> requested := requested st @ [dep_name dep] \<rparr>
         in if checkResult = Exists then st1\<lparr> pushed := pushed st1 @ [existsFinding dep] \<rparr>
            else if checkResult = CheckError then st1\<lparr> pushed := pushed st1 @ [errorFinding dep] \<rparr>
            else st1))"

text \<open>\<^verbatim>\<open>xs.slice(i, j)\<close> for \<open>i \<le> j\<close>.\<close>

definition slice :: "'a list \<Rightarrow> nat \<Rightarrow> nat \<Rightarrow> 'a list" where
  "slice xs i j = take (j - i) (drop i xs)"

text \<open>\<^verbatim>\<open>for (let i = 0; i < scoped.length; i += concurrency)\<close>: with a concurrency of 0
  and a scoped dependency the loop never ends, which is the value \<open>None\<close>.\<close>

partial_function (option) batchLoop ::
  "(nat \<Rightarrow> string \<Rightarrow> response) \<Rightarrow> PackageDependency list \<Rightarrow> nat \<Rightarrow> nat \<Rightarrow> checker_state \<Rightarrow> checker_state option" where
  "batchLoop fetch scoped concurrency i st =
     (if i < length scoped then
        batchLoop fetch scoped concurrency (i + concurrency)
          (foldl (checkOne fetch) st (enumerate i (slice scoped i (i + concurrency))))
      else Some st)"

definition checkPublicRegistry ::
  "(nat \<Rightarrow> string \<Rightarrow> response) \<Rightarrow> PackageDependency list \<Rightarrow> nat \<Rightarrow> checker_state option" where
  "checkPublicRegistry fetch deps concurrency =
     batchLoop fetch (filter dep_isScoped deps) concurrency 0 \<lparr> pushed = [], requested = [] \<rparr>"

section \<open>The analyzer (analyzer/analyzer.ts)\<close>

fun SEVERITY_ORDER :: "Severity \<Rightarrow> nat" where
  "SEVERITY_ORDER critical = 0"
| "SEVERITY_ORDER high = 1"
| "SEVERITY_ORDER medium = 2"
| "SEVERITY_ORDER low = 3"
| "SEVERITY_ORDER info = 4"

record AnalyzeOptions =
  offline :: bool
  severityThreshold :: Severity
  scopes :: "string list option"
  ignorePackages :: "string list option"

text \<open>\<^verbatim>\<open>s.indexOf(c)\<close>, \<open>None\<close> for -1.\<close>

fun indexOf :: "string \<Rightarrow> char \<Rightarrow> nat option" where
  "indexOf [] c = None"
| "indexOf (x # xs) c = (if x = c then Some 0 else map_option Suc (indexOf xs c))"

definition extractScope :: "string \<Rightarrow> string option" where
  "extractScope name =
     (if startsWith name ''@'' then
        (case indexOf name CHR ''/'' of
           Some slashIndex \<Rightarrow> if slashIndex > 0 then Some (take slashIndex name) else None
         | None \<Rightarrow> None)
      else None)"

text \<open>The predicate of the scope filter.\<close>

definition scopeKeeps :: "string list \<Rightarrow> Finding \<Rightarrow> bool" where
  "scopeKeeps scopeList f =
     (case packageName f of
        None \<Rightarrow> True
      | Some name \<Rightarrow>
          if name = [] then True
          else (case extractScope name of
                  None \<Rightarrow> True
                | Some scope \<Rightarrow> if scope \<noteq> [] then scope \<in> set scopeList else True))"

text \<open>The predicate of the ignore filter.\<close>

definition ignoreKeeps :: "string list \<Rightarrow> Finding \<Rightarrow> bool" where
  "ignoreKeeps ignored f =
     (case packageName f of None \<Rightarrow> True | Some name \<Rightarrow> name = [] \<or> name \<notin> set ignored)"

definition buildSummary :: "Finding list \<Rightarrow> ScanSummary" where
  "buildSummary fs =
     \<lparr> sum_total = length fs,
       sum_critical = length (filter (\<lambda>f. severity f = critical) fs),
       sum_high = length (filter (\<lambda>f. severity f = high) fs),
       sum_medium = length (filter (\<lambda>f. severity f = medium) fs),
       sum_low = length (filter (\<lambda>f. severity f = low) fs),
       sum_info = length (filter (\<lambda>f. severity f = info) fs) \<rparr>"

definition buildContext :: "ProjectContext \<Rightarrow> ScanContext" where
  "buildContext context =
     \<lparr> packagesScanned = length (dependencies context),
       scopedPackages = length (filter dep_isScoped (dependencies context)),
       registriesConfigured = length (scopeRegistries (registryConfig context))
         + (if truthy (defaultRegistry (registryConfig context)) then 1 else 0),
       lockfileDetected = (lockfile context \<noteq> None) \<rparr>"

text \<open>The findings of the static rules, in the order of \<^verbatim>\<open>ALL_RULES\<close>.\<close>

definition ruleFindings :: "(string \<Rightarrow> string option) \<Rightarrow> ProjectContext \<Rightarrow> Finding list" where
  "ruleFindings hostname context =
     foldl (\<lambda>findings rule. findings @ run rule context) [] (ALL_RULES hostname)"

text \<open>The online step: skipped in offline mode, with the default concurrency of 5
  otherwise.\<close>

definition onlineCheck ::
  "(nat \<Rightarrow> string \<Rightarrow> response) \<Rightarrow> ProjectContext \<Rightarrow> AnalyzeOptions \<Rightarrow> checker_state option" where
  "onlineCheck fetch context options =
     (if \<not> offline options then checkPublicRegistry fetch (dependencies context) 5
      else Some \<lparr> pushed = [], requested = [] \<rparr>)"

text \<open>The findings before the filters, and after the three filters (before the sort).\<close>

definition rawFindings ::
  "(nat \<Rightarrow> string \<Rightarrow> response) \<Rightarrow> (string \<Rightarrow> string option) \<Rightarrow> ProjectContext \<Rightarrow> AnalyzeOptions \<Rightarrow> Finding list option" where
  "rawFindings fetch hostname context options =
     (case onlineCheck fetch context options of
        None \<Rightarrow> None
      | Some online \<Rightarrow> Some (ruleFindings hostname context @ pushed online))"

definition scopeFilter :: "AnalyzeOptions \<Rightarrow> Finding list \<Rightarrow> Finding list" where
  "scopeFilter options fs =
     (case scopes options of
        None \<Rightarrow> fs
      | Some scopeList \<Rightarrow> if length scopeList > 0 then filter (scopeKeeps scopeList) fs else fs)"

definition ignoreFilter :: "AnalyzeOptions \<Rightarrow> Finding list \<Rightarrow> Finding list" where
  "ignoreFilter options fs =
     (case ignorePackages options of
        None \<Rightarrow> fs
      | Some ignored \<Rightarrow> if length ignored > 0 then filter (ignoreKeeps ignored) fs else fs)"

definition severityFilter :: "AnalyzeOptions \<Rightarrow> Finding list \<Rightarrow> Finding list" where
  "severityFilter options fs =
     filter (\<lambda>f. SEVERITY_ORDER (severity f) \<le> SEVERITY_ORDER (severityThreshold options)) fs"

text \<open>\<^verbatim>\<open>findings.sort((a, b) => SEVERITY_ORDER[a.severity] - SEVERITY_ORDER[b.severity])\<close>:
  \<^verbatim>\<open>Array.prototype.sort\<close> is a stable sort by the comparator, here an insertion sort
  on the ordinal.\<close>

definition sortBySeverity :: "Finding list \<Rightarrow> Finding list" where
  "sortBySeverity fs = sort_key (\<lambda>f. SEVERITY_ORDER (severity f)) fs"

definition analyze ::
  "(nat \<Rightarrow> string \<Rightarrow> response) \<Rightarrow> (string \<Rightarrow> string option) \<Rightarrow> ProjectContext \<Rightarrow> AnalyzeOptions \<Rightarrow> ScanResult option" where
  "analyze fetch hostname context options =
     (case rawFindings fetch hostname context options of
        None \<Rightarrow> None
      | Some raw \<Rightarrow>
          (let result = sortBySeverity (severityFilter options (ignoreFilter options (scopeFilter options raw)))
           in Some \<lparr> findings = result, summary = buildSummary result,
                     scanContext = buildContext context \<rparr>))"

section \<open>Building the project context (index.ts)\<close>

text \<open>\<^verbatim>\<open>addDeps(entries, isDev)\<close>: one dependency per entry of the manifest, joined with
  the lockfile by name.\<close>

definition addDeps :: "LockfileData option \<Rightarrow> (string \<times> string) list \<Rightarrow> bool \<Rightarrow> PackageDependency list" where
  "addDeps lf entries isDev =
     map (\<lambda>(name, version).
            (let lockEntry = (case lf of None \<Rightarrow> None | Some l \<Rightarrow> mapGet (lf_packages l) name) in
             \<lparr> dep_name = name, dep_version = version,
               dep_scope =
                 (if startsWith name ''@'' then
                    (case splitOn CHR ''/'' name of [] \<Rightarrow> None | part # _ \<Rightarrow> Some part)
                  else None),
               dep_isScoped = startsWith name ''@'',
               dep_isDev = isDev,
               dep_resolvedUrl = (case lockEntry of None \<Rightarrow> None | Some e \<Rightarrow> le_resolved e),
               dep_integrity = (case lockEntry of None \<Rightarrow> None | Some e \<Rightarrow> le_integrity e),
               dep_hasInstallScripts =
                 (case lockEntry of
                    None \<Rightarrow> False
                  | Some e \<Rightarrow> (case le_hasInstallScripts e of None \<Rightarrow> False | Some b \<Rightarrow> b)) \<rparr>))
         entries"

definition buildDependencies :: "PackageJsonData \<Rightarrow> LockfileData option \<Rightarrow> PackageDependency list" where
  "buildDependencies pj lf = addDeps lf (pj_dependencies pj) False @ addDeps lf (pj_devDependencies pj) True"

text \<open>The context that \<^verbatim>\<open>scanForConfusion\<close> hands to the analyzer, from the three parsed
  inputs.\<close>

definition projectContext ::
  "string \<Rightarrow> PackageJsonData \<Rightarrow> LockfileData option \<Rightarrow> RegistryConfig \<Rightarrow> ProjectContext" where
  "projectContext root pj lf rc =
     \<lparr> rootDir = root, packageJson = pj, dependencies = buildDependencies pj lf,
       registryConfig = rc, lockfile = lf \<rparr>"

section \<open>Closed forms used in the proofs\<close>

text \<open>The invariant of the pnpm parser: the parser and its trace agree on the control
  state, and the table is the first occurrence of every name in the log.\<close>

definition tracks :: "pnpm_state \<Rightarrow> pnpm_state \<times> LockfileEntry list \<Rightarrow> bool" where
  "tracks st sl =
     (case sl of (st', log) \<Rightarrow>
        st' = st\<lparr> packages := [] \<rparr> \<and> (\<forall>n. mapGet (packages st) n = firstOccurrence log n))"

text \<open>What the checker pushes for the scoped dependency at position \<open>k\<close>.\<close>

definition probeFindings :: "(nat \<Rightarrow> string \<Rightarrow> response) \<Rightarrow> nat \<times> PackageDependency \<Rightarrow> Finding list" where
  "probeFindings fetch kd =
     (case kd of (k, dep) \<Rightarrow>
        if fetch k (dep_name dep) = Status 200 then [existsFinding dep]
        else if fetch k (dep_name dep) = Status 404 then []
        else [errorFinding dep])"

text \<open>The findings of the online step of a scan, and the findings of a scan after the
  three filters.\<close>

definition onlineFindings :: "(nat \<Rightarrow> string \<Rightarrow> response) \<Rightarrow> ProjectContext \<Rightarrow> AnalyzeOptions \<Rightarrow> Finding list" where
  "onlineFindings fetch context options =
     (if offline options then []
      else concat (map (probeFindings fetch) (enumerate 0 (filter dep_isScoped (dependencies context)))))"

definition filtered ::
  "(nat \<Rightarrow> string \<Rightarrow> response) \<Rightarrow> (string \<Rightarrow> string option) \<Rightarrow> ProjectContext \<Rightarrow> AnalyzeOptions \<Rightarrow> Finding list" where
  "filtered fetch hostname context options =
     severityFilter options (ignoreFilter options (scopeFilter options
       (ruleFindings hostname context @ onlineFindings fetch context options)))"

section \<open>Properties of the name-keyed tables\<close>

lemma map_of_mapSet: "map_of (mapSet m k v) = (map_of m)(k \<mapsto> v)"
  by (induction m k v rule: mapSet.induct) (auto simp: fun_eq_iff)

lemma find_append_first:
  "List.find P (xs @ ys) = (case List.find P xs of Some x \<Rightarrow> Some x | None \<Rightarrow> List.find P ys)"
  by (induction xs) auto

lemma map_filter_Cons:
  "List.map_filter f (x # xs) =
     (case f x of None \<Rightarrow> List.map_filter f xs | Some y \<Rightarrow> y # List.map_filter f xs)"
  by (simp add: List.map_filter_def split: option.splits)

lemma mapSet_keys: "fst ` set (mapSet m k v) = insert k (fst ` set m)"
  by (induction m k v rule: mapSet.induct) auto

lemma mapSet_distinct: "distinct (map fst m) \<Longrightarrow> distinct (map fst (mapSet m k v))"
proof (induction m k v rule: mapSet.induct)
  case (1 k v)
  then show ?case by simp
next
  case (2 k' v' m k v)
  then show ?case
    using mapSet_keys [of m k v] by (auto simp: image_iff)
qed

text \<open>Overlaying a table with distinct keys on another: the overlay wins.\<close>

lemma merge_overlay:
  "distinct (map fst kvs) \<Longrightarrow>
   map_of (foldl (\<lambda>m (k, v). mapSet m k v) m0 kvs) s
     = (case map_of kvs s of Some v \<Rightarrow> Some v | None \<Rightarrow> map_of m0 s)"
proof (induction kvs arbitrary: m0)
  case Nil
  then show ?case by simp
next
  case (Cons kv kvs)
  obtain k v where kv: "kv = (k, v)" by (cases kv)
  from Cons.prems kv have "map_of kvs k = None"
    by (simp add: map_of_eq_None_iff)
  with Cons kv show ?case
    by (simp add: map_of_mapSet split: option.splits)
qed

lemma foldl_push:
  "foldl (\<lambda>acc x. if P x then acc @ [g x] else acc) a xs = a @ map g (filter P xs)"
  by (induction xs arbitrary: a) auto

lemma foldl_skip: "foldl (\<lambda>acc x. acc) a xs = a"
  by (induction xs) simp_all

section \<open>Properties of the lockfile parsers\<close>

subsection \<open>pnpm keeps the first occurrence\<close>

lemma pending_packages [simp]: "pending (st\<lparr> packages := p \<rparr>) = pending st"
  by (simp add: pending_def split: option.splits)

lemma flush_packages:
  assumes "\<forall>n. mapGet (packages st) n = firstOccurrence log n"
  shows "mapGet (packages (flush st)) n
       = firstOccurrence (log @ (case pending st of None \<Rightarrow> [] | Some e \<Rightarrow> [e])) n"
  using assms
  by (auto simp: flush_def firstOccurrence_def find_append_first map_of_mapSet mapHas_def
                 mapGet_def split: option.splits)

lemma tracks_step:
  assumes "tracks st sl"
  shows "tracks (pnpmLine st line) (pnpmTraceLine sl line)"
proof -
  obtain st' log where sl: "sl = (st', log)" by (cases sl)
  from assms sl have st': "st' = st\<lparr> packages := [] \<rparr>"
    and tab: "\<forall>n. mapGet (packages st) n = firstOccurrence log n"
    by (simp_all add: tracks_def)
  have fl: "\<forall>n. mapGet (packages (flush st)) n
       = firstOccurrence (log @ (case pending st of None \<Rightarrow> [] | Some e \<Rightarrow> [e])) n"
    using flush_packages [OF tab] by simp
  show ?thesis
    unfolding sl st' tracks_def pnpmLine_def pnpmTraceLine_def Let_def
    using tab fl
    apply (simp split: option.splits prod.splits)
    apply (intro conjI impI allI)
    apply (simp_all add: flush_def split: option.splits)
    done
qed

lemma tracks_foldl:
  "tracks st sl \<Longrightarrow> tracks (foldl pnpmLine st ls) (foldl pnpmTraceLine sl ls)"
  by (induction ls arbitrary: st sl) (simp_all add: tracks_step)

lemma tracks_init: "tracks pnpmInit (pnpmInit, [])"
  by (simp add: tracks_def pnpmInit_def mapGet_def firstOccurrence_def)

text \<open>
  C1, as amended: for the YAML (pnpm) dialect, the table that the parser returns holds,
  under every name, the entry of the first occurrence of that name in the file; later
  blocks for the same name leave the entry unchanged. (A name that never occurs has no
  entry.)
\<close>

theorem C1_pnpm_first_occurrence_wins:
  "mapGet (lf_packages (parsePnpmLockfile content)) n = firstOccurrence (pnpmOccurrences content) n"
proof -
  let ?ls = "splitOn CHR 0x0A content"
  obtain st' log where sl: "foldl pnpmTraceLine (pnpmInit, []) ?ls = (st', log)"
    by (cases "foldl pnpmTraceLine (pnpmInit, []) ?ls")
  have t: "tracks (foldl pnpmLine pnpmInit ?ls) (st', log)"
    using tracks_foldl [OF tracks_init, of ?ls] sl by simp
  then have st': "st' = (foldl pnpmLine pnpmInit ?ls)\<lparr> packages := [] \<rparr>"
    and tab: "\<forall>n. mapGet (packages (foldl pnpmLine pnpmInit ?ls)) n = firstOccurrence log n"
    by (simp_all add: tracks_def)
  have "pending st' = pending (foldl pnpmLine pnpmInit ?ls)"
    by (simp add: st')
  then show ?thesis
    using flush_packages [OF tab, of n]
    by (simp add: parsePnpmLockfile_def pnpmOccurrences_def sl)
qed

text \<open>The theorem at a pnpm lockfile with two blocks for \<^verbatim>\<open>@acme/lib\<close>, versions 1.0.0
  and then 2.0.0: the table holds 1.0.0.\<close>

theorem C1_pnpm_first_occurrence_wins_witness:
  "map_option le_version
     (mapGet (lf_packages (parsePnpmLockfile
        ''packages:\<newline>  /@acme/lib@1.0.0:\<newline>    resolution: {integrity: sha512-AAA}\<newline>  /@acme/lib@2.0.0:\<newline>    resolution: {integrity: sha512-BBB}\<newline>''))
      ''@acme/lib'')
   = Some ''1.0.0''"
proof -
  have "map_option le_version
     (firstOccurrence (pnpmOccurrences
        ''packages:\<newline>  /@acme/lib@1.0.0:\<newline>    resolution: {integrity: sha512-AAA}\<newline>  /@acme/lib@2.0.0:\<newline>    resolution: {integrity: sha512-BBB}\<newline>'')
      ''@acme/lib'')
   = Some ''1.0.0''"
    by code_simp
  then show ?thesis
    by (simp only: C1_pnpm_first_occurrence_wins)
qed

subsection \<open>yarn and npm keep the last occurrence\<close>

lemma yarnLoop_last:
  "mapGet (yarnLoop bs pk) n =
     (case lastOccurrence (List.map_filter yarnBlock bs) n of
        Some e \<Rightarrow> Some e
      | None \<Rightarrow> mapGet pk n)"
proof (induction bs arbitrary: pk)
  case Nil
  then show ?case by (simp add: lastOccurrence_def List.map_filter_def)
next
  case (Cons b bs)
  then show ?case
    by (auto simp: map_filter_Cons lastOccurrence_def find_append_first mapGet_def map_of_mapSet
             split: option.splits)
qed

lemma yarn_last_occurrence_wins:
  "mapGet (lf_packages (parseYarnLockfile content)) n = lastOccurrence (yarnOccurrences content) n"
  using yarnLoop_last [of "splitBlocks content" "[]" n]
  by (simp add: parseYarnLockfile_def yarnOccurrences_def mapGet_def split: option.splits)

lemma npmEntry_name: "npmEntry name v = Inr e \<Longrightarrow> le_name e = name"
  by (auto simp: npmEntry_def split: sum.splits)

lemma npmPackagesLoop_last:
  "npmPackagesLoop ms pk = Inr tab \<Longrightarrow>
   mapGet tab n =
     (case lastOccurrence (npmOccurrences ms) n of Some e \<Rightarrow> Some e | None \<Rightarrow> mapGet pk n)"
proof (induction ms pk arbitrary: tab rule: npmPackagesLoop.induct)
  case (1 packages)
  then show ?case by (simp add: lastOccurrence_def npmOccurrences_def List.map_filter_def)
next
  case (2 key v rest packages)
  show ?case
  proof (cases "key = []")
    case True
    with 2 show ?thesis by (simp add: npmOccurrences_def map_filter_Cons)
  next
    case False
    with "2.prems" obtain entry where e: "npmEntry (stripNodeModules key) v = Inr entry"
      and l: "npmPackagesLoop rest (mapSet packages (stripNodeModules key) entry) = Inr tab"
      by (auto split: sum.splits)
    from "2.IH"(2) [OF False e l] npmEntry_name [OF e] False e show ?thesis
      by (auto simp: npmOccurrences_def map_filter_Cons lastOccurrence_def find_append_first
                     mapGet_def map_of_mapSet split: option.splits)
  qed
qed

text \<open>
  C1, as stated, fails for the classic-text (yarn) and the npm dialects. A yarn.lock
  with two blocks for \<^verbatim>\<open>foo\<close> (1.0.0, then 2.0.0) yields a table that holds 2.0.0, the
  last occurrence, and so does a package-lock.json whose \<^verbatim>\<open>packages\<close> object has the
  keys \<^verbatim>\<open>foo\<close> and \<^verbatim>\<open>node_modules/foo\<close>, which both give the name \<^verbatim>\<open>foo\<close>.
\<close>

theorem C1_first_occurrence_counterexample:
  "map_option le_version
     (mapGet (lf_packages (parseYarnLockfile
        ''foo@^1.0.0:\<newline>  version \"1.0.0\"\<newline>foo@^2.0.0:\<newline>  version \"2.0.0\"\<newline>''))
      ''foo'')
   = Some ''2.0.0''
   \<and> map_option le_version
     (firstOccurrence (yarnOccurrences
        ''foo@^1.0.0:\<newline>  version \"1.0.0\"\<newline>foo@^2.0.0:\<newline>  version \"2.0.0\"\<newline>'')
      ''foo'')
   = Some ''1.0.0''
   \<and> map_sum id (\<lambda>d. map_option le_version (mapGet (lf_packages d) ''foo''))
     (parseNpmLockfile
        (JObj [(''packages'',
           JObj [(''foo'', JObj [(''version'', JStr ''1.0.0'')]),
                 (''node_modules/foo'', JObj [(''version'', JStr ''2.0.0'')])])]))
   = Inr (Some ''2.0.0'')
   \<and> map_option le_version
     (firstOccurrence (npmOccurrences
        [(''foo'', JObj [(''version'', JStr ''1.0.0'')]),
         (''node_modules/foo'', JObj [(''version'', JStr ''2.0.0'')])])
      ''foo'')
   = Some ''1.0.0''"
  by code_simp

section \<open>Properties of the detection rules\<close>

subsection \<open>DC-002\<close>

text \<open>
  C2: the rule "scoped package without registry mapping" (DC-002) returns no finding
  when no config file exists; when a config exists and the default registry is private
  (set, and not a public registry) it returns no finding either; otherwise it returns
  one finding for each scoped dependency whose scope has no entry in the scope-registry
  table, in the order of the dependencies, and each of them is critical, carries the
  rule id DC-002 and names the dependency.
\<close>

theorem C2_scopeWithoutRegistry:
  "(\<not> hasConfig (registryConfig context) \<longrightarrow> run scopeWithoutRegistry context = [])
   \<and> (hasConfig (registryConfig context) \<and> defaultIsPrivate (registryConfig context)
        \<longrightarrow> run scopeWithoutRegistry context = [])
   \<and> (hasConfig (registryConfig context) \<and> \<not> defaultIsPrivate (registryConfig context)
        \<longrightarrow> run scopeWithoutRegistry context
            = map scopeWithoutRegistry_finding
                (filter (\<lambda>dep. \<not> hasScope (scopeRegistries (registryConfig context)) (dep_scope dep))
                   (getScopedDependencies context)))
   \<and> ruleId (scopeWithoutRegistry_finding dep) = ''DC-002''
   \<and> severity (scopeWithoutRegistry_finding dep) = critical
   \<and> packageName (scopeWithoutRegistry_finding dep) = Some (dep_name dep)"
proof (cases "defaultIsPrivate (registryConfig context)")
  case True
  then show ?thesis
    by (simp add: scopeWithoutRegistry_def scopeWithoutRegistry_run_def foldl_skip
                  scopeWithoutRegistry_finding_def)
next
  case False
  then show ?thesis
    by (simp add: scopeWithoutRegistry_def scopeWithoutRegistry_run_def foldl_push
                  scopeWithoutRegistry_finding_def)
qed

text \<open>The three cases of the theorem, on a project that depends on \<^verbatim>\<open>@acme/lib\<close> and
  \<^verbatim>\<open>lodash\<close>: no config file; a config with a private default registry; a config
  that maps nothing.\<close>

theorem C2_scopeWithoutRegistry_witness:
  "run scopeWithoutRegistry
     (projectContext ''/p''
        \<lparr> pj_name = Some ''app'', pj_version = Some ''1.0.0'', pj_isPrivate = True,
          pj_dependencies = [(''@acme/lib'', ''^1.0.0''), (''lodash'', ''4.17.21'')],
          pj_devDependencies = [], hasPreinstall = False, hasPostinstall = False, hasInstall = False \<rparr>
        None \<lparr> defaultRegistry = None, scopeRegistries = [], hasConfig = False \<rparr>) = []
   \<and> run scopeWithoutRegistry
        (projectContext ''/p''
           \<lparr> pj_name = Some ''app'', pj_version = Some ''1.0.0'', pj_isPrivate = True,
             pj_dependencies = [(''@acme/lib'', ''^1.0.0''), (''lodash'', ''4.17.21'')],
             pj_devDependencies = [], hasPreinstall = False, hasPostinstall = False, hasInstall = False \<rparr>
           None
           \<lparr> defaultRegistry = Some ''https://npm.acme.example/'', scopeRegistries = [],
             hasConfig = True \<rparr>) = []
   \<and> map (\<lambda>f. (ruleId f, severity f, packageName f))
        (run scopeWithoutRegistry
           (projectContext ''/p''
              \<lparr> pj_name = Some ''app'', pj_version = Some ''1.0.0'', pj_isPrivate = True,
                pj_dependencies = [(''@acme/lib'', ''^1.0.0''), (''lodash'', ''4.17.21'')],
                pj_devDependencies = [], hasPreinstall = False, hasPostinstall = False, hasInstall = False \<rparr>
              None \<lparr> defaultRegistry = None, scopeRegistries = [], hasConfig = True \<rparr>))
      = [(''DC-002'', critical, Some ''@acme/lib'')]"
proof -
  let ?pj = "\<lparr> pj_name = Some ''app'', pj_version = Some ''1.0.0'', pj_isPrivate = True,
          pj_dependencies = [(''@acme/lib'', ''^1.0.0''), (''lodash'', ''4.17.21'')],
          pj_devDependencies = [], hasPreinstall = False, hasPostinstall = False, hasInstall = False \<rparr>"
  let ?A = "projectContext ''/p'' ?pj None
              \<lparr> defaultRegistry = None, scopeRegistries = [], hasConfig = False \<rparr>"
  let ?B = "projectContext ''/p'' ?pj None
              \<lparr> defaultRegistry = Some ''https://npm.acme.example/'', scopeRegistries = [],
                hasConfig = True \<rparr>"
  let ?C = "projectContext ''/p'' ?pj None
              \<lparr> defaultRegistry = None, scopeRegistries = [], hasConfig = True \<rparr>"
  have a: "\<not> hasConfig (registryConfig ?A)"
    by (simp add: projectContext_def)
  have b: "hasConfig (registryConfig ?B) \<and> defaultIsPrivate (registryConfig ?B)"
    by code_simp
  have c: "hasConfig (registryConfig ?C) \<and> \<not> defaultIsPrivate (registryConfig ?C)"
    by code_simp
  have d: "map (\<lambda>f. (ruleId f, severity f, packageName f))
        (map scopeWithoutRegistry_finding
           (filter (\<lambda>dep. \<not> hasScope (scopeRegistries (registryConfig ?C)) (dep_scope dep))
              (getScopedDependencies ?C)))
      = [(''DC-002'', critical, Some ''@acme/lib'')]"
    by code_simp
  from a b c d
    C2_scopeWithoutRegistry [of ?A] C2_scopeWithoutRegistry [of ?B] C2_scopeWithoutRegistry [of ?C]
  show ?thesis by simp
qed

subsection \<open>DC-003\<close>

text \<open>
  C3 at a failing input. The scope \<^verbatim>\<open>@acme\<close> is mapped, but to the public registry
  (the mapping is not private), and the lockfile resolves \<^verbatim>\<open>@acme/lib\<close> from the public
  registry. The claim says that DC-003 emits no finding for a dependency whose scope's
  mapping is not private; the rule only asks whether the table has the scope, and emits
  a critical finding (whose description says that a private registry is configured).
\<close>

theorem C3_public_mapping_is_flagged:
  "isPublicRegistry (mapGet [(''@acme'', ''https://registry.npmjs.org/'')] ''@acme'')
   \<and> map (\<lambda>f. (ruleId f, severity f, packageName f))
        (run lockfilePublicResolution
           (projectContext ''/p''
              \<lparr> pj_name = Some ''app'', pj_version = Some ''1.0.0'', pj_isPrivate = True,
                pj_dependencies = [(''@acme/lib'', ''^1.0.0'')], pj_devDependencies = [],
                hasPreinstall = False, hasPostinstall = False, hasInstall = False \<rparr>
              (Some \<lparr> lf_type = npm,
                      lf_packages =
                        [(''@acme/lib'',
                          \<lparr> le_name = ''@acme/lib'', le_version = ''1.0.0'',
                            le_resolved = Some ''https://registry.npmjs.org/@acme/lib/-/lib-1.0.0.tgz'',
                            le_integrity = Some ''sha512-AAA'', le_hasInstallScripts = None \<rparr>)] \<rparr>)
              \<lparr> defaultRegistry = None,
                scopeRegistries = [(''@acme'', ''https://registry.npmjs.org/'')],
                hasConfig = True \<rparr>))
      = [(''DC-003'', critical, Some ''@acme/lib'')]"
  by code_simp

text \<open>The part of C3 that the rule does implement: every finding of DC-003 is about a
  scoped dependency whose scope has an entry in the scope-registry table.\<close>

lemma lockfilePublicResolution_only_mapped:
  assumes "f \<in> set (run lockfilePublicResolution context)"
  shows "\<exists>dep \<in> set (getScopedDependencies context).
           hasScope (scopeRegistries (registryConfig context)) (dep_scope dep)
           \<and> packageName f = Some (dep_name dep)"
proof -
  have inv: "f \<in> set (foldl
            (\<lambda>findings dep.
               if \<not> hasScope (scopeRegistries (registryConfig context)) (dep_scope dep) then findings
               else
                 (case mapGet (lf_packages lf) (dep_name dep) of
                    None \<Rightarrow> findings
                  | Some lockEntry \<Rightarrow>
                      if truthy (le_resolved lockEntry) \<and> isPublicRegistry (le_resolved lockEntry)
                      then findings @ [lockfilePublicResolution_finding dep lockEntry]
                      else findings))
            acc deps) \<Longrightarrow>
        f \<in> set acc \<or> (\<exists>dep \<in> set deps.
           hasScope (scopeRegistries (registryConfig context)) (dep_scope dep)
           \<and> packageName f = Some (dep_name dep))" for lf acc deps
  proof (induction deps arbitrary: acc)
    case Nil
    then show ?case by simp
  next
    case (Cons d deps)
    from Cons.IH [OF Cons.prems [simplified foldl_Cons]] show ?case
      by (auto simp: lockfilePublicResolution_finding_def split: if_splits option.splits)
  qed
  from assms show ?thesis
    by (auto simp: lockfilePublicResolution_def lockfilePublicResolution_run_def
             split: option.splits dest: inv)
qed

subsection \<open>DC-007\<close>

text \<open>
  C4 at a failing input. The claim (and the comment above \<^verbatim>\<open>isVersionPinned\<close>) counts
  \<^verbatim>\<open>=1.2.3\<close> as pinned. The pattern \<^verbatim>\<open>/^\d+\.\d+\.\d+/\<close> needs a digit first, so the
  predicate is false there and DC-007 reports the dependency; the bare \<^verbatim>\<open>1.2.3\<close> is
  pinned.
\<close>

theorem C4_equals_prefix_not_pinned:
  "isVersionPinned ''1.2.3''
   \<and> \<not> isVersionPinned ''=1.2.3''
   \<and> map (\<lambda>f. (ruleId f, packageName f, evidence f))
        (run unpinnedScopedVersion
           (projectContext ''/p''
              \<lparr> pj_name = Some ''app'', pj_version = Some ''1.0.0'', pj_isPrivate = True,
                pj_dependencies = [(''@acme/lib'', ''=1.2.3'')], pj_devDependencies = [],
                hasPreinstall = False, hasPostinstall = False, hasInstall = False \<rparr>
              None \<lparr> defaultRegistry = None, scopeRegistries = [], hasConfig = False \<rparr>))
      = [(''DC-007'', Some ''@acme/lib'', Some ''Version: =1.2.3'')]"
  by code_simp

section \<open>Properties of the registry configuration parser\<close>

lemma npmrcLine_distinct:
  "distinct (map fst (snd acc)) \<Longrightarrow> distinct (map fst (snd (npmrcLine acc line)))"
  by (cases acc) (auto simp: npmrcLine_def Let_def mapSet_distinct split: option.splits)

lemma npmrc_fold_distinct:
  "distinct (map fst (snd acc)) \<Longrightarrow> distinct (map fst (snd (foldl npmrcLine acc ls)))"
  by (induction ls arbitrary: acc) (simp_all add: npmrcLine_distinct)

lemma parseNpmrc_distinct: "distinct (map fst (scopeRegistries (parseNpmrc files)))"
proof (cases "npmrcFile files")
  case None
  then show ?thesis by (simp add: parseNpmrc_def noConfig_def)
next
  case (Some content)
  have "distinct (map fst (snd (foldl npmrcLine (None, []) (splitOn CHR 0x0A content))))"
    by (rule npmrc_fold_distinct) simp
  with Some show ?thesis
    by (auto simp: parseNpmrc_def parseNpmrcContent_def split: prod.splits)
qed

text \<open>
  C8: in the merged registry configuration, every scope that both config files define
  has the value of .npmrc; the default registry is the one of .npmrc when .npmrc defines
  one, and the one of .yarnrc.yml otherwise; and \<open>hasConfig\<close> is true exactly when at
  least one of the two files exists.
\<close>

theorem C8_merge:
  "(\<forall>scope. mapHas (scopeRegistries (parseNpmrc files)) scope
            \<and> mapHas (scopeRegistries (parseYarnrc files)) scope
      \<longrightarrow> mapGet (scopeRegistries (parseRegistryConfig files)) scope
          = mapGet (scopeRegistries (parseNpmrc files)) scope)
   \<and> defaultRegistry (parseRegistryConfig files)
       = (case defaultRegistry (parseNpmrc files) of
            Some r \<Rightarrow> Some r
          | None \<Rightarrow> defaultRegistry (parseYarnrc files))
   \<and> (hasConfig (parseRegistryConfig files) \<longleftrightarrow> npmrcFile files \<noteq> None \<or> yarnrcFile files \<noteq> None)"
proof -
  have h: "hasConfig (parseNpmrc files) \<longleftrightarrow> npmrcFile files \<noteq> None"
    "hasConfig (parseYarnrc files) \<longleftrightarrow> yarnrcFile files \<noteq> None"
    by (simp_all add: parseNpmrc_def parseYarnrc_def noConfig_def parseNpmrcContent_def
                      parseYarnrcContent_def split: option.splits prod.splits)
  have m: "mapGet (scopeRegistries (parseRegistryConfig files)) scope
      = (case mapGet (scopeRegistries (parseNpmrc files)) scope of
           Some r \<Rightarrow> Some r
         | None \<Rightarrow> map_of (foldl (\<lambda>m (k, v). mapSet m k v) [] (scopeRegistries (parseYarnrc files))) scope)"
    for scope
    using merge_overlay [OF parseNpmrc_distinct [of files]]
    by (simp add: parseRegistryConfig_def Let_def mapGet_def)
  have 1: "\<forall>scope. mapHas (scopeRegistries (parseNpmrc files)) scope
            \<and> mapHas (scopeRegistries (parseYarnrc files)) scope
      \<longrightarrow> mapGet (scopeRegistries (parseRegistryConfig files)) scope
          = mapGet (scopeRegistries (parseNpmrc files)) scope"
  proof (intro allI impI)
    fix scope
    assume "mapHas (scopeRegistries (parseNpmrc files)) scope
            \<and> mapHas (scopeRegistries (parseYarnrc files)) scope"
    then obtain r where "mapGet (scopeRegistries (parseNpmrc files)) scope = Some r"
      by (auto simp: mapHas_def mapGet_def)
    then show "mapGet (scopeRegistries (parseRegistryConfig files)) scope
          = mapGet (scopeRegistries (parseNpmrc files)) scope"
      by (simp add: m)
  qed
  have 2: "defaultRegistry (parseRegistryConfig files)
       = (case defaultRegistry (parseNpmrc files) of
            Some r \<Rightarrow> Some r
          | None \<Rightarrow> defaultRegistry (parseYarnrc files))"
    by (simp add: parseRegistryConfig_def Let_def)
  have 3: "hasConfig (parseRegistryConfig files) \<longleftrightarrow> npmrcFile files \<noteq> None \<or> yarnrcFile files \<noteq> None"
    using h by (simp add: parseRegistryConfig_def Let_def)
  from 1 2 3 show ?thesis by blast
qed

text \<open>The theorem on a project with both files: both define \<^verbatim>\<open>@acme\<close> and a default
  registry, and the merged configuration has the values of .npmrc.\<close>

theorem C8_merge_witness:
  "mapGet (scopeRegistries (parseYarnrc
      \<lparr> npmrcFile = Some ''# private\<newline>registry=https://npm.acme.example/\<newline>@acme:registry = https://a.example/\<newline>'',
        yarnrcFile = Some ''npmRegistryServer: \"https://yarn.example/\"\<newline>npmScopes:\<newline>  \"@acme\":\<newline>    npmRegistryServer: \"https://b.example/\"\<newline>'' \<rparr>))
     ''@acme'' = Some ''https://b.example/''
   \<and> mapGet (scopeRegistries (parseRegistryConfig
      \<lparr> npmrcFile = Some ''# private\<newline>registry=https://npm.acme.example/\<newline>@acme:registry = https://a.example/\<newline>'',
        yarnrcFile = Some ''npmRegistryServer: \"https://yarn.example/\"\<newline>npmScopes:\<newline>  \"@acme\":\<newline>    npmRegistryServer: \"https://b.example/\"\<newline>'' \<rparr>))
     ''@acme'' = Some ''https://a.example/''
   \<and> defaultRegistry (parseRegistryConfig
      \<lparr> npmrcFile = Some ''# private\<newline>registry=https://npm.acme.example/\<newline>@acme:registry = https://a.example/\<newline>'',
        yarnrcFile = Some ''npmRegistryServer: \"https://yarn.example/\"\<newline>npmScopes:\<newline>  \"@acme\":\<newline>    npmRegistryServer: \"https://b.example/\"\<newline>'' \<rparr>)
     = Some ''https://npm.acme.example/''
   \<and> hasConfig (parseRegistryConfig
      \<lparr> npmrcFile = Some ''# private\<newline>registry=https://npm.acme.example/\<newline>@acme:registry = https://a.example/\<newline>'',
        yarnrcFile = Some ''npmRegistryServer: \"https://yarn.example/\"\<newline>npmScopes:\<newline>  \"@acme\":\<newline>    npmRegistryServer: \"https://b.example/\"\<newline>'' \<rparr>)"
proof -
  let ?F = "\<lparr> npmrcFile = Some ''# private\<newline>registry=https://npm.acme.example/\<newline>@acme:registry = https://a.example/\<newline>'',
        yarnrcFile = Some ''npmRegistryServer: \"https://yarn.example/\"\<newline>npmScopes:\<newline>  \"@acme\":\<newline>    npmRegistryServer: \"https://b.example/\"\<newline>'' \<rparr>"
  have a: "mapGet (scopeRegistries (parseNpmrc ?F)) ''@acme'' = Some ''https://a.example/''"
    by code_simp
  have b: "mapGet (scopeRegistries (parseYarnrc ?F)) ''@acme'' = Some ''https://b.example/''"
    by code_simp
  have d: "defaultRegistry (parseNpmrc ?F) = Some ''https://npm.acme.example/''"
    by code_simp
  from a b have h: "mapHas (scopeRegistries (parseNpmrc ?F)) ''@acme''
      \<and> mapHas (scopeRegistries (parseYarnrc ?F)) ''@acme''"
    by (simp add: mapHas_def mapGet_def)
  from C8_merge [of ?F] h a b d show ?thesis
    by simp
qed

section \<open>Properties of the online registry checker\<close>

lemma checkOne_pushed_requested:
  "pushed (checkOne fetch st (k, dep)) =
     pushed st @ (if fetch k (dep_name dep) = Status 200 then [existsFinding dep]
                  else if fetch k (dep_name dep) = Status 404 then []
                  else [errorFinding dep])"
  "requested (checkOne fetch st (k, dep)) = requested st @ [dep_name dep]"
  by (auto simp: checkOne_def packageExistsOnPublicNpm_def Let_def split: response.splits)

lemma foldl_checkOne:
  "foldl (checkOne fetch) st kds =
     \<lparr> pushed = pushed st @ concat (map (probeFindings fetch) kds),
       requested = requested st @ map (\<lambda>kd. dep_name (snd kd)) kds \<rparr>"
proof (induction kds arbitrary: st)
  case Nil
  then show ?case by simp
next
  case (Cons kd kds)
  obtain k dep where kd: "kd = (k, dep)" by (cases kd)
  show ?case
    by (simp add: Cons.IH kd checkOne_pushed_requested probeFindings_def)
qed

lemma enumerate_split:
  "enumerate i (drop i xs) = enumerate i (slice xs i (i + c)) @ enumerate (i + c) (drop (i + c) xs)"
proof -
  have "drop i xs = take c (drop i xs) @ drop c (drop i xs)"
    by (simp only: append_take_drop_id)
  then have "enumerate i (drop i xs)
      = enumerate i (take c (drop i xs)) @ enumerate (i + length (take c (drop i xs))) (drop c (drop i xs))"
    by (metis enumerate_append_eq)
  moreover have "enumerate (i + length (take c (drop i xs))) (drop c (drop i xs))
      = enumerate (i + c) (drop (i + c) xs)"
  proof (cases "c \<le> length xs - i")
    case True
    then show ?thesis by (simp add: min_def add.commute)
  next
    case False
    then show ?thesis by simp
  qed
  ultimately show ?thesis by (simp add: slice_def)
qed

lemma batchLoop_returns:
  assumes "0 < c"
  shows "batchLoop fetch scoped c i st = Some (foldl (checkOne fetch) st (enumerate i (drop i scoped)))"
proof (induction "length scoped - i" arbitrary: i st rule: less_induct)
  case less
  show ?case
  proof (cases "i < length scoped")
    case False
    then show ?thesis by (subst batchLoop.simps) simp
  next
    case True
    with assms have "length scoped - (i + c) < length scoped - i" by arith
    from less [OF this] True show ?thesis
      by (subst batchLoop.simps) (simp add: enumerate_split [of i scoped c])
  qed
qed


text \<open>With a concurrency of 0 the loop does not return as long as a dependency is left.\<close>

lemma batchLoop_zero:
  assumes "batchLoop fetch scoped c i st = Some y"
  shows "\<not> (c = 0 \<and> i < length scoped)"
  by (rule batchLoop.raw_induct
        [where P = "\<lambda>fetch scoped c i st y. \<not> (c = 0 \<and> i < length scoped)", OF _ assms])
     (fastforce split: if_splits)

lemma batchLoop_diverges:
  "i < length scoped \<Longrightarrow> batchLoop fetch scoped 0 i st = None"
  using batchLoop_zero [of fetch scoped 0 i st] by (cases "batchLoop fetch scoped 0 i st") auto

lemma checkPublicRegistry_returns:
  assumes "0 < c"
  shows "checkPublicRegistry fetch deps c =
     Some \<lparr> pushed = concat (map (probeFindings fetch) (enumerate 0 (filter dep_isScoped deps))),
            requested = map dep_name (filter dep_isScoped deps) \<rparr>"
proof -
  have "map (\<lambda>kd. dep_name (snd kd)) (enumerate 0 xs) = map dep_name xs" for xs :: "PackageDependency list"
    by (induction xs rule: rev_induct) (simp_all add: enumerate_append_eq)
  then show ?thesis
    by (simp add: checkPublicRegistry_def batchLoop_returns [OF assms] foldl_checkOne)
qed

text \<open>The checker returns for every concurrency above 0; the analyzer calls it with 5,
  so the analyzer always returns.\<close>

lemma rawFindings_closed:
  "rawFindings fetch hostname context options
     = Some (ruleFindings hostname context @ onlineFindings fetch context options)"
  by (simp add: rawFindings_def onlineCheck_def checkPublicRegistry_returns onlineFindings_def)

lemma analyze_closed:
  "analyze fetch hostname context options
     = Some \<lparr> findings = sortBySeverity (filtered fetch hostname context options),
              summary = buildSummary (sortBySeverity (filtered fetch hostname context options)),
              scanContext = buildContext context \<rparr>"
  by (simp add: analyze_def rawFindings_closed Let_def filtered_def)

text \<open>
  C9: the online checker (for a concurrency above 0) returns, and what it pushes is, in
  the order of the scoped dependencies, exactly one DC-008 finding of severity high for
  a dependency whose request was answered with status 200, nothing for one answered
  with 404, and exactly one DC-008 finding of severity low for any other status and for
  a request that failed or timed out. The requests issued are those for the scoped
  dependencies, none for an unscoped one. In offline mode the analyzer does not call the
  checker: no request is issued and the findings before the filters are those of the
  static rules.
\<close>

theorem C9_online_checker:
  "(0 < concurrency \<longrightarrow>
      checkPublicRegistry fetch deps concurrency
        = Some \<lparr> pushed =
                   concat (map (\<lambda>(k, dep).
                                  if fetch k (dep_name dep) = Status 200 then [existsFinding dep]
                                  else if fetch k (dep_name dep) = Status 404 then []
                                  else [errorFinding dep])
                             (enumerate 0 (filter dep_isScoped deps))),
                 requested = map dep_name (filter dep_isScoped deps) \<rparr>)
   \<and> ruleId (existsFinding dep) = ''DC-008'' \<and> severity (existsFinding dep) = high
   \<and> ruleId (errorFinding dep) = ''DC-008'' \<and> severity (errorFinding dep) = low
   \<and> (offline options \<longrightarrow>
        onlineCheck fetch context options = Some \<lparr> pushed = [], requested = [] \<rparr>
        \<and> rawFindings fetch hostname context options = Some (ruleFindings hostname context))
   \<and> (\<not> offline options \<longrightarrow>
        onlineCheck fetch context options = checkPublicRegistry fetch (dependencies context) 5)"
proof -
  have "probeFindings fetch = (\<lambda>(k, dep).
                                  if fetch k (dep_name dep) = Status 200 then [existsFinding dep]
                                  else if fetch k (dep_name dep) = Status 404 then []
                                  else [errorFinding dep])"
    by (simp add: fun_eq_iff probeFindings_def)
  then show ?thesis
    using checkPublicRegistry_returns [of concurrency fetch deps]
    by (simp add: existsFinding_def errorFinding_def onlineCheck_def rawFindings_def)
qed

text \<open>The theorem on four scoped dependencies and an unscoped one, with a concurrency
  of 2 and the answers 200, 404, 503 and a network failure; and on the online step of a
  scan of one scoped dependency, in offline mode and not.\<close>

theorem C9_online_checker_witness:
  "map_option (\<lambda>st. (map (\<lambda>f. (ruleId f, severity f, packageName f)) (pushed st), requested st))
     (checkPublicRegistry
        (\<lambda>k name. if k = 0 then Status 200 else if k = 1 then Status 404 else if k = 2 then Status 503 else Failure)
        (buildDependencies
           \<lparr> pj_name = Some ''app'', pj_version = Some ''1.0.0'', pj_isPrivate = True,
             pj_dependencies = [(''@acme/a'', ''1.0.0''), (''lodash'', ''4.17.21''), (''@acme/b'', ''1.0.0''),
                                (''@acme/c'', ''1.0.0''), (''@acme/d'', ''1.0.0'')],
             pj_devDependencies = [], hasPreinstall = False, hasPostinstall = False, hasInstall = False \<rparr>
           None)
        2)
   = Some ([(''DC-008'', high, Some ''@acme/a''), (''DC-008'', low, Some ''@acme/c''),
            (''DC-008'', low, Some ''@acme/d'')],
           [''@acme/a'', ''@acme/b'', ''@acme/c'', ''@acme/d''])
   \<and> onlineCheck
        (\<lambda>k name. if k = 0 then Status 200 else if k = 1 then Status 404 else if k = 2 then Status 503 else Failure)
        (projectContext ''/p''
           \<lparr> pj_name = Some ''app'', pj_version = Some ''1.0.0'', pj_isPrivate = True,
             pj_dependencies = [(''@acme/a'', ''1.0.0'')],
             pj_devDependencies = [], hasPreinstall = False, hasPostinstall = False, hasInstall = False \<rparr>
           None \<lparr> defaultRegistry = None, scopeRegistries = [], hasConfig = False \<rparr>)
        \<lparr> offline = True, severityThreshold = info, scopes = None, ignorePackages = None \<rparr>
      = Some \<lparr> pushed = [], requested = [] \<rparr>
   \<and> map_option (\<lambda>st. (map (\<lambda>f. (ruleId f, severity f, packageName f)) (pushed st), requested st))
       (onlineCheck
        (\<lambda>k name. if k = 0 then Status 200 else if k = 1 then Status 404 else if k = 2 then Status 503 else Failure)
        (projectContext ''/p''
           \<lparr> pj_name = Some ''app'', pj_version = Some ''1.0.0'', pj_isPrivate = True,
             pj_dependencies = [(''@acme/a'', ''1.0.0'')],
             pj_devDependencies = [], hasPreinstall = False, hasPostinstall = False, hasInstall = False \<rparr>
           None \<lparr> defaultRegistry = None, scopeRegistries = [], hasConfig = False \<rparr>)
        \<lparr> offline = False, severityThreshold = info, scopes = None, ignorePackages = None \<rparr>)
      = Some ([(''DC-008'', high, Some ''@acme/a'')], [''@acme/a''])"
proof -
  let ?fetch = "\<lambda>k name. if k = (0::nat) then Status 200 else if k = 1 then Status 404
                         else if k = 2 then Status 503 else Failure"
  let ?deps = "buildDependencies
           \<lparr> pj_name = Some ''app'', pj_version = Some ''1.0.0'', pj_isPrivate = True,
             pj_dependencies = [(''@acme/a'', ''1.0.0''), (''lodash'', ''4.17.21''), (''@acme/b'', ''1.0.0''),
                                (''@acme/c'', ''1.0.0''), (''@acme/d'', ''1.0.0'')],
             pj_devDependencies = [], hasPreinstall = False, hasPostinstall = False, hasInstall = False \<rparr>
           None"
  let ?ctx = "projectContext ''/p''
           \<lparr> pj_name = Some ''app'', pj_version = Some ''1.0.0'', pj_isPrivate = True,
             pj_dependencies = [(''@acme/a'', ''1.0.0'')],
             pj_devDependencies = [], hasPreinstall = False, hasPostinstall = False, hasInstall = False \<rparr>
           None \<lparr> defaultRegistry = None, scopeRegistries = [], hasConfig = False \<rparr>"
  have e: "(map (\<lambda>f. (ruleId f, severity f, packageName f))
             (concat (map (\<lambda>(k, dep).
                                  if ?fetch k (dep_name dep) = Status 200 then [existsFinding dep]
                                  else if ?fetch k (dep_name dep) = Status 404 then []
                                  else [errorFinding dep])
                             (enumerate 0 (filter dep_isScoped ?deps)))),
           map dep_name (filter dep_isScoped ?deps))
        = ([(''DC-008'', high, Some ''@acme/a''), (''DC-008'', low, Some ''@acme/c''),
            (''DC-008'', low, Some ''@acme/d'')],
           [''@acme/a'', ''@acme/b'', ''@acme/c'', ''@acme/d''])"
    by code_simp
  have e': "(map (\<lambda>f. (ruleId f, severity f, packageName f))
             (concat (map (\<lambda>(k, dep).
                                  if ?fetch k (dep_name dep) = Status 200 then [existsFinding dep]
                                  else if ?fetch k (dep_name dep) = Status 404 then []
                                  else [errorFinding dep])
                             (enumerate 0 (filter dep_isScoped (dependencies ?ctx))))),
           map dep_name (filter dep_isScoped (dependencies ?ctx)))
        = ([(''DC-008'', high, Some ''@acme/a'')], [''@acme/a''])"
    by code_simp
  have c: "(0::nat) < 2" "(0::nat) < 5" by simp_all
  from C9_online_checker [of 2 ?fetch ?deps _
      "\<lparr> offline = True, severityThreshold = info, scopes = None, ignorePackages = None \<rparr>" ?ctx]
    c e
  have 1: "map_option (\<lambda>st. (map (\<lambda>f. (ruleId f, severity f, packageName f)) (pushed st), requested st))
       (checkPublicRegistry ?fetch ?deps 2)
     = Some ([(''DC-008'', high, Some ''@acme/a''), (''DC-008'', low, Some ''@acme/c''),
            (''DC-008'', low, Some ''@acme/d'')],
           [''@acme/a'', ''@acme/b'', ''@acme/c'', ''@acme/d''])"
    and 2: "onlineCheck ?fetch ?ctx
        \<lparr> offline = True, severityThreshold = info, scopes = None, ignorePackages = None \<rparr>
      = Some \<lparr> pushed = [], requested = [] \<rparr>"
    by simp_all
  from C9_online_checker [of 5 ?fetch "dependencies ?ctx" _
      "\<lparr> offline = False, severityThreshold = info, scopes = None, ignorePackages = None \<rparr>" ?ctx]
    c e'
  have 3: "map_option (\<lambda>st. (map (\<lambda>f. (ruleId f, severity f, packageName f)) (pushed st), requested st))
       (onlineCheck ?fetch ?ctx
          \<lparr> offline = False, severityThreshold = info, scopes = None, ignorePackages = None \<rparr>)
      = Some ([(''DC-008'', high, Some ''@acme/a'')], [''@acme/a''])"
    by simp
  from 1 2 3 show ?thesis by simp
qed

section \<open>Properties of the analyzer\<close>

text \<open>
  C5: for every project context and every option record, the analyzer returns a result,
  and every finding in it has a severity ordinal that is at most the ordinal of the
  threshold.
\<close>

theorem C5_threshold:
  "\<exists>r. analyze fetch hostname context options = Some r
     \<and> (\<forall>f \<in> set (findings r).
           SEVERITY_ORDER (severity f) \<le> SEVERITY_ORDER (severityThreshold options))"
  by (simp add: analyze_closed sortBySeverity_def filtered_def severityFilter_def)

text \<open>The theorem on a scan with threshold medium: the low finding of the checker (a
  failed request) is not returned.\<close>

theorem C5_threshold_witness:
  "\<exists>r. analyze (\<lambda>k name. if k = 0 then Status 200 else Failure) (\<lambda>url. None)
          (projectContext ''/p''
             \<lparr> pj_name = Some ''app'', pj_version = Some ''1.0.0'', pj_isPrivate = True,
               pj_dependencies = [(''@acme/lib'', ''^1.0.0''), (''@acme/core'', ''1.0.0'')],
               pj_devDependencies = [], hasPreinstall = False, hasPostinstall = False, hasInstall = False \<rparr>
             None noConfig)
          \<lparr> offline = False, severityThreshold = medium, scopes = None, ignorePackages = None \<rparr> = Some r
     \<and> map (\<lambda>f. (ruleId f, severity f)) (findings r)
         = [(''DC-001'', high), (''DC-004'', high), (''DC-008'', high), (''DC-007'', medium)]
     \<and> list_all (\<lambda>f. SEVERITY_ORDER (severity f) \<le> SEVERITY_ORDER medium) (findings r)"
proof -
  let ?a = "analyze (\<lambda>k name. if k = 0 then Status 200 else Failure) (\<lambda>url. None)
          (projectContext ''/p''
             \<lparr> pj_name = Some ''app'', pj_version = Some ''1.0.0'', pj_isPrivate = True,
               pj_dependencies = [(''@acme/lib'', ''^1.0.0''), (''@acme/core'', ''1.0.0'')],
               pj_devDependencies = [], hasPreinstall = False, hasPostinstall = False, hasInstall = False \<rparr>
             None noConfig)
          \<lparr> offline = False, severityThreshold = medium, scopes = None, ignorePackages = None \<rparr>"
  have "map (\<lambda>f. (ruleId f, severity f))
       (sortBySeverity (filtered (\<lambda>k name. if k = 0 then Status 200 else Failure) (\<lambda>url. None)
          (projectContext ''/p''
             \<lparr> pj_name = Some ''app'', pj_version = Some ''1.0.0'', pj_isPrivate = True,
               pj_dependencies = [(''@acme/lib'', ''^1.0.0''), (''@acme/core'', ''1.0.0'')],
               pj_devDependencies = [], hasPreinstall = False, hasPostinstall = False, hasInstall = False \<rparr>
             None noConfig)
          \<lparr> offline = False, severityThreshold = medium, scopes = None, ignorePackages = None \<rparr>))
      = [(''DC-001'', high), (''DC-004'', high), (''DC-008'', high), (''DC-007'', medium)]"
    by code_simp
  then have e: "map_option (\<lambda>r. map (\<lambda>f. (ruleId f, severity f)) (findings r)) ?a
      = Some [(''DC-001'', high), (''DC-004'', high), (''DC-008'', high), (''DC-007'', medium)]"
    by (simp add: analyze_closed)
  from C5_threshold [of "\<lambda>k name. if k = 0 then Status 200 else Failure" "\<lambda>url. None"
      "projectContext ''/p''
             \<lparr> pj_name = Some ''app'', pj_version = Some ''1.0.0'', pj_isPrivate = True,
               pj_dependencies = [(''@acme/lib'', ''^1.0.0''), (''@acme/core'', ''1.0.0'')],
               pj_devDependencies = [], hasPreinstall = False, hasPostinstall = False, hasInstall = False \<rparr>
             None noConfig"
      "\<lparr> offline = False, severityThreshold = medium, scopes = None, ignorePackages = None \<rparr>"]
  obtain r where r: "?a = Some r"
    and b: "\<forall>f \<in> set (findings r). SEVERITY_ORDER (severity f) \<le> SEVERITY_ORDER medium"
    by auto
  from e r b show ?thesis by (simp add: list_all_iff)
qed

text \<open>
  C6: the findings that the analyzer returns are sorted by non-decreasing severity
  ordinal, and the sort is stable: for every ordinal, the findings of that ordinal stand
  in the order they had in the list that was sorted (the findings after the three
  filters).
\<close>

theorem C6_sorted_stable:
  "\<exists>raw r. rawFindings fetch hostname context options = Some raw
     \<and> analyze fetch hostname context options = Some r
     \<and> sorted (map (\<lambda>f. SEVERITY_ORDER (severity f)) (findings r))
     \<and> (\<forall>k. filter (\<lambda>f. SEVERITY_ORDER (severity f) = k) (findings r)
            = filter (\<lambda>f. SEVERITY_ORDER (severity f) = k)
                (severityFilter options (ignoreFilter options (scopeFilter options raw))))"
  by (simp add: analyze_closed rawFindings_closed filtered_def sortBySeverity_def sort_key_stable)

lemma extractScope_nonempty: "extractScope name = Some s \<Longrightarrow> s \<noteq> []"
  by (cases name) (auto simp: extractScope_def split: if_splits option.splits)

text \<open>
  C7, as stated, fails for a finding that is associated with a package whose name has
  no scope. With the allow-list \<^verbatim>\<open>@acme\<close>, the DC-005 finding about \<^verbatim>\<open>lodash\<close> (a
  lockfile entry without integrity hash) is returned: \<^verbatim>\<open>extractScope\<close> gives no scope
  for the name, and the filter keeps the finding although it names a package and no
  scope of that package is in the list.
\<close>

theorem C7_unscoped_package_kept_counterexample:
  "map_option (\<lambda>r. map (\<lambda>f. (ruleId f, packageName f)) (findings r))
     (analyze (\<lambda>k name. Failure) (\<lambda>url. None)
        (projectContext ''/p''
           \<lparr> pj_name = Some ''app'', pj_version = Some ''1.0.0'', pj_isPrivate = True,
             pj_dependencies = [(''lodash'', ''4.17.21'')], pj_devDependencies = [],
             hasPreinstall = False, hasPostinstall = False, hasInstall = False \<rparr>
           (Some \<lparr> lf_type = npm,
                   lf_packages =
                     [(''lodash'',
                       \<lparr> le_name = ''lodash'', le_version = ''4.17.21'',
                         le_resolved = Some ''https://registry.npmjs.org/lodash/-/lodash-4.17.21.tgz'',
                         le_integrity = None, le_hasInstallScripts = None \<rparr>)] \<rparr>)
           \<lparr> defaultRegistry = None, scopeRegistries = [], hasConfig = False \<rparr>)
        \<lparr> offline = True, severityThreshold = info, scopes = Some [''@acme''],
          ignorePackages = None \<rparr>)
   = Some [(''DC-005'', Some ''lodash'')]
   \<and> extractScope ''lodash'' = None
   \<and> ''lodash'' \<notin> set [''@acme'']"
proof -
  have "map (\<lambda>f. (ruleId f, packageName f))
     (sortBySeverity (filtered (\<lambda>k name. Failure) (\<lambda>url. None)
        (projectContext ''/p''
           \<lparr> pj_name = Some ''app'', pj_version = Some ''1.0.0'', pj_isPrivate = True,
             pj_dependencies = [(''lodash'', ''4.17.21'')], pj_devDependencies = [],
             hasPreinstall = False, hasPostinstall = False, hasInstall = False \<rparr>
           (Some \<lparr> lf_type = npm,
                   lf_packages =
                     [(''lodash'',
                       \<lparr> le_name = ''lodash'', le_version = ''4.17.21'',
                         le_resolved = Some ''https://registry.npmjs.org/lodash/-/lodash-4.17.21.tgz'',
                         le_integrity = None, le_hasInstallScripts = None \<rparr>)] \<rparr>)
           \<lparr> defaultRegistry = None, scopeRegistries = [], hasConfig = False \<rparr>)
        \<lparr> offline = True, severityThreshold = info, scopes = Some [''@acme''],
          ignorePackages = None \<rparr>))
   = [(''DC-005'', Some ''lodash'')]"
    by code_simp
  moreover have "extractScope ''lodash'' = None"
    by code_simp
  ultimately show ?thesis
    by (simp add: analyze_closed)
qed

text \<open>
  C7, as amended: with a non-empty scope allow-list, no returned finding is associated
  with a package whose name has a scope (the part of a scoped name before the slash)
  that is not in the list, while every finding with no associated package name
  (undefined or empty) is returned unless the severity threshold drops it, and every
  finding whose package name has no scope is returned unless the ignore list or the
  severity threshold drops it; with an ignore list, no returned finding has an
  associated (non-empty) package name in the list; and the result is the sorted list of
  the findings that pass the scope filter, then the ignore filter, then the severity
  filter.
\<close>

theorem C7_scope_and_ignore_filters:
  "\<exists>raw r. rawFindings fetch hostname context options = Some raw
     \<and> analyze fetch hostname context options = Some r
     \<and> (\<forall>scopeList. scopes options = Some scopeList \<and> scopeList \<noteq> [] \<longrightarrow>
          (\<forall>f \<in> set (findings r). \<forall>name scope.
             packageName f = Some name \<and> extractScope name = Some scope \<longrightarrow> scope \<in> set scopeList))
     \<and> (\<forall>f \<in> set raw.
            \<not> truthy (packageName f)
            \<and> SEVERITY_ORDER (severity f) \<le> SEVERITY_ORDER (severityThreshold options)
            \<longrightarrow> f \<in> set (findings r))
     \<and> (\<forall>f \<in> set raw. \<forall>name.
            packageName f = Some name \<and> extractScope name = None
            \<and> (\<forall>ignored. ignorePackages options = Some ignored \<longrightarrow> name \<notin> set ignored)
            \<and> SEVERITY_ORDER (severity f) \<le> SEVERITY_ORDER (severityThreshold options)
            \<longrightarrow> f \<in> set (findings r))
     \<and> (\<forall>ignored. ignorePackages options = Some ignored \<longrightarrow>
          (\<forall>f \<in> set (findings r). \<forall>name.
             packageName f = Some name \<and> name \<noteq> [] \<longrightarrow> name \<notin> set ignored))
     \<and> findings r = sortBySeverity (severityFilter options (ignoreFilter options (scopeFilter options raw)))"
proof -
  define raw where "raw = ruleFindings hostname context @ onlineFindings fetch context options"
  have r: "rawFindings fetch hostname context options = Some raw"
    by (simp add: raw_def rawFindings_closed)
  have a: "analyze fetch hostname context options
         = Some \<lparr> findings = sortBySeverity (severityFilter options (ignoreFilter options (scopeFilter options raw))),
                  summary = buildSummary (sortBySeverity (severityFilter options (ignoreFilter options (scopeFilter options raw)))),
                  scanContext = buildContext context \<rparr>"
    by (simp add: raw_def analyze_closed filtered_def)
  let ?fs = "sortBySeverity (severityFilter options (ignoreFilter options (scopeFilter options raw)))"
  have mem: "f \<in> set ?fs \<longleftrightarrow>
      f \<in> set raw
      \<and> (\<forall>scopeList. scopes options = Some scopeList \<and> scopeList \<noteq> [] \<longrightarrow> scopeKeeps scopeList f)
      \<and> (\<forall>ignored. ignorePackages options = Some ignored \<and> ignored \<noteq> [] \<longrightarrow> ignoreKeeps ignored f)
      \<and> SEVERITY_ORDER (severity f) \<le> SEVERITY_ORDER (severityThreshold options)" for f
    by (auto simp: sortBySeverity_def severityFilter_def ignoreFilter_def scopeFilter_def
             split: option.splits)
  have s: "\<forall>scopeList. scopes options = Some scopeList \<and> scopeList \<noteq> [] \<longrightarrow>
          (\<forall>f \<in> set ?fs. \<forall>name scope.
             packageName f = Some name \<and> extractScope name = Some scope \<longrightarrow> scope \<in> set scopeList)"
  proof (intro allI impI ballI, elim conjE)
    fix scopeList f name scope
    assume sc: "scopes options = Some scopeList" "scopeList \<noteq> []"
      and f: "f \<in> set ?fs" and n: "packageName f = Some name" "extractScope name = Some scope"
    from f sc have "scopeKeeps scopeList f" by (simp only: mem) blast
    moreover from n(2) have "scope \<noteq> []" by (rule extractScope_nonempty)
    moreover from n(2) have "name \<noteq> []" by (auto simp: extractScope_def startsWith_def)
    ultimately show "scope \<in> set scopeList"
      using n by (simp add: scopeKeeps_def)
  qed
  have p: "\<forall>f \<in> set raw.
            \<not> truthy (packageName f)
            \<and> SEVERITY_ORDER (severity f) \<le> SEVERITY_ORDER (severityThreshold options)
            \<longrightarrow> f \<in> set ?fs"
  proof (intro ballI impI, elim conjE)
    fix f
    assume f: "f \<in> set raw" and t: "\<not> truthy (packageName f)"
      and sv: "SEVERITY_ORDER (severity f) \<le> SEVERITY_ORDER (severityThreshold options)"
    from t have "scopeKeeps sl f" "ignoreKeeps ig f" for sl ig
      by (auto simp: truthy_def scopeKeeps_def ignoreKeeps_def split: option.splits)
    with f sv show "f \<in> set ?fs" by (simp only: mem) blast
  qed
  have u: "\<forall>f \<in> set raw. \<forall>name.
            packageName f = Some name \<and> extractScope name = None
            \<and> (\<forall>ignored. ignorePackages options = Some ignored \<longrightarrow> name \<notin> set ignored)
            \<and> SEVERITY_ORDER (severity f) \<le> SEVERITY_ORDER (severityThreshold options)
            \<longrightarrow> f \<in> set ?fs"
  proof (intro ballI allI impI, elim conjE)
    fix f name
    assume f: "f \<in> set raw" and n: "packageName f = Some name" "extractScope name = None"
      and ig: "\<forall>ignored. ignorePackages options = Some ignored \<longrightarrow> name \<notin> set ignored"
      and sv: "SEVERITY_ORDER (severity f) \<le> SEVERITY_ORDER (severityThreshold options)"
    from n have "scopeKeeps sl f" for sl
      by (simp add: scopeKeeps_def)
    moreover from n ig have "ignorePackages options = Some ignored \<Longrightarrow> ignoreKeeps ignored f" for ignored
      by (simp add: ignoreKeeps_def)
    ultimately show "f \<in> set ?fs" using f sv by (simp only: mem) blast
  qed
  have i: "\<forall>ignored. ignorePackages options = Some ignored \<longrightarrow>
          (\<forall>f \<in> set ?fs. \<forall>name.
             packageName f = Some name \<and> name \<noteq> [] \<longrightarrow> name \<notin> set ignored)"
  proof (intro allI impI ballI, elim conjE)
    fix ignored f name
    assume ig: "ignorePackages options = Some ignored"
      and f: "f \<in> set ?fs" and n: "packageName f = Some name" "name \<noteq> []"
    show "name \<notin> set ignored"
    proof (cases "ignored = []")
      case True
      then show ?thesis by simp
    next
      case False
      with f ig have "ignoreKeeps ignored f" by (simp only: mem) blast
      with n show ?thesis by (simp add: ignoreKeeps_def)
    qed
  qed
  from s p u i show ?thesis
    by (simp only: r a option.inject ScanResult.simps simp_thms ex_simps)
qed

text \<open>The theorem on a scan with the allow-list \<^verbatim>\<open>@acme\<close>, the ignore list
  \<^verbatim>\<open>@acme/skip\<close> and the threshold medium: of the three DC-008 findings, the one for
  \<^verbatim>\<open>@other/x\<close> and the one for \<^verbatim>\<open>@acme/skip\<close> are dropped; the project-level finding
  DC-001 and the DC-005 finding about the unscoped \<^verbatim>\<open>lodash\<close> are kept.\<close>

theorem C7_scope_and_ignore_filters_witness:
  "\<exists>r. analyze (\<lambda>k name. Status 200) (\<lambda>url. None)
          (projectContext ''/p''
             \<lparr> pj_name = Some ''app'', pj_version = Some ''1.0.0'', pj_isPrivate = True,
               pj_dependencies = [(''@acme/lib'', ''^1.0.0''), (''@other/x'', ''^1.0.0''),
                                  (''@acme/skip'', ''^1.0.0''), (''lodash'', ''4.17.21'')],
               pj_devDependencies = [], hasPreinstall = False, hasPostinstall = False, hasInstall = False \<rparr>
             (Some \<lparr> lf_type = npm,
                     lf_packages =
                       [(''lodash'',
                         \<lparr> le_name = ''lodash'', le_version = ''4.17.21'',
                           le_resolved = Some ''https://registry.npmjs.org/lodash/-/lodash-4.17.21.tgz'',
                           le_integrity = None, le_hasInstallScripts = None \<rparr>)] \<rparr>)
             noConfig)
          \<lparr> offline = False, severityThreshold = medium, scopes = Some [''@acme''],
            ignorePackages = Some [''@acme/skip''] \<rparr> = Some r
     \<and> map (\<lambda>f. (ruleId f, packageName f)) (findings r)
         = [(''DC-001'', None), (''DC-008'', Some ''@acme/lib''),
            (''DC-005'', Some ''lodash''), (''DC-007'', Some ''@acme/lib'')]"
proof -
  let ?ctx = "projectContext ''/p''
             \<lparr> pj_name = Some ''app'', pj_version = Some ''1.0.0'', pj_isPrivate = True,
               pj_dependencies = [(''@acme/lib'', ''^1.0.0''), (''@other/x'', ''^1.0.0''),
                                  (''@acme/skip'', ''^1.0.0''), (''lodash'', ''4.17.21'')],
               pj_devDependencies = [], hasPreinstall = False, hasPostinstall = False, hasInstall = False \<rparr>
             (Some \<lparr> lf_type = npm,
                     lf_packages =
                       [(''lodash'',
                         \<lparr> le_name = ''lodash'', le_version = ''4.17.21'',
                           le_resolved = Some ''https://registry.npmjs.org/lodash/-/lodash-4.17.21.tgz'',
                           le_integrity = None, le_hasInstallScripts = None \<rparr>)] \<rparr>)
             noConfig"
  let ?opts = "\<lparr> offline = False, severityThreshold = medium, scopes = Some [''@acme''],
            ignorePackages = Some [''@acme/skip''] \<rparr>"
  from C7_scope_and_ignore_filters [of "\<lambda>k name. Status 200" "\<lambda>url. None" ?ctx ?opts]
  obtain raw r where raw: "rawFindings (\<lambda>k name. Status 200) (\<lambda>url. None) ?ctx ?opts = Some raw"
    and r: "analyze (\<lambda>k name. Status 200) (\<lambda>url. None) ?ctx ?opts = Some r"
    and fs: "findings r = sortBySeverity (severityFilter ?opts (ignoreFilter ?opts (scopeFilter ?opts raw)))"
    by blast
  from raw have "raw = ruleFindings (\<lambda>url. None) ?ctx @ onlineFindings (\<lambda>k name. Status 200) ?ctx ?opts"
    by (simp add: rawFindings_closed)
  moreover have "map (\<lambda>f. (ruleId f, packageName f))
       (sortBySeverity (severityFilter ?opts (ignoreFilter ?opts (scopeFilter ?opts
          (ruleFindings (\<lambda>url. None) ?ctx @ onlineFindings (\<lambda>k name. Status 200) ?ctx ?opts)))))
       = [(''DC-001'', None), (''DC-008'', Some ''@acme/lib''),
          (''DC-005'', Some ''lodash''), (''DC-007'', Some ''@acme/lib'')]"
    by code_simp
  ultimately show ?thesis using r fs by simp
qed

lemma severity_partition:
  "length fs = length (filter (\<lambda>f. severity f = critical) fs)
     + length (filter (\<lambda>f. severity f = high) fs)
     + length (filter (\<lambda>f. severity f = medium) fs)
     + length (filter (\<lambda>f. severity f = low) fs)
     + length (filter (\<lambda>f. severity f = info) fs)"
proof (induction fs)
  case Nil
  then show ?case by simp
next
  case (Cons f fs)
  then show ?case by (cases "severity f") simp_all
qed

text \<open>
  C10: the summary of every result of the analyzer is computed from the returned
  findings: its total is the length of the list, and the total is the sum of the five
  counts per severity.
\<close>

theorem C10_summary_consistent:
  "\<exists>r. analyze fetch hostname context options = Some r
     \<and> sum_total (summary r) = length (findings r)
     \<and> sum_total (summary r)
         = sum_critical (summary r) + sum_high (summary r) + sum_medium (summary r)
           + sum_low (summary r) + sum_info (summary r)
     \<and> summary r = buildSummary (findings r)"
  using severity_partition [of "sortBySeverity (filtered fetch hostname context options)"]
  by (simp add: analyze_closed buildSummary_def)

end
